theory Spec2Isabelle
  imports Main "HOL-Library.Word"
begin

unbundle bit_operations_syntax

section \<open>The flip filter of libavfilter/vf\_flip\_nvcv.c\<close>

text \<open>
  The filter is glue code: every interesting effect is a call into the host framework
  (libavutil, libavfilter), the CUDA driver or the tensor-operator library. The embedding
  keeps the control flow of \<^verbatim>\<open>config_props\<close>, \<^verbatim>\<open>filter_frame\<close> and \<^verbatim>\<open>uninit\<close> as written
  and makes the outside world explicit:
  \<^item> what an external call returns is read from a record of responses, one field for each
    call site, so that every outcome the C code can observe is an input of the model;
  \<^item> what an external call does is recorded in a world: the CUDA context stack of the
    calling thread, the GPU memory and the trace of calls in program order.
\<close>

subsection \<open>Scalars, status codes and constants of the headers\<close>

type_synonym c_int = "32 word"
type_synonym int64_t = "64 word"
type_synonym pointer = nat
type_synonym CUcontext = nat
type_synonym CUstream = nat
type_synonym CUresult = int
type_synonym NVCVStatus = int
type_synonym NVCVOperatorHandle = nat

definition CUDA_SUCCESS :: CUresult where
  "CUDA_SUCCESS = 0"

definition NVCV_SUCCESS :: NVCVStatus where
  "NVCV_SUCCESS = 0"

text \<open>errno values of the target platform (Linux) and libavutil's \<^verbatim>\<open>AVERROR\<close>.\<close>

definition ENOMEM :: int where
  "ENOMEM = 12"

definition ENOSYS :: int where
  "ENOSYS = 38"

definition AVERROR :: "int \<Rightarrow> int" where
  "AVERROR e = - e"

text \<open>\<^verbatim>\<open>#define AV_PIX_FMT_FLAG_RGB (1 << 5)\<close> of libavutil/pixdesc.h.\<close>

definition AV_PIX_FMT_FLAG_RGB :: "64 word" where
  "AV_PIX_FMT_FLAG_RGB = push_bit 5 1"

subsection \<open>Pixel formats\<close>

text \<open>
  The enum of libavutil/pixfmt.h, restricted to the formats the file names (also in its
  comments) and one constructor for every other valid format. The two endian-dependent
  aliases \<^verbatim>\<open>AV_PIX_FMT_0RGB32\<close> and \<^verbatim>\<open>AV_PIX_FMT_0BGR32\<close> are kept under the names the
  source uses; on every platform they differ from each other and from the four other
  supported formats.
\<close>

datatype AVPixelFormat =
    AV_PIX_FMT_YUV420P
  | AV_PIX_FMT_NV12
  | AV_PIX_FMT_RGB24
  | AV_PIX_FMT_BGR24
  | AV_PIX_FMT_0RGB32
  | AV_PIX_FMT_0BGR32
  | AV_PIX_FMT_RGBA
  | AV_PIX_FMT_BGRA
  | AV_PIX_FMT_CUDA
  | AV_PIX_FMT_OTHER nat

text \<open>
  \<^verbatim>\<open>AVPixFmtDescriptor\<close>: the two members \<^verbatim>\<open>filter_frame\<close> reads, \<^verbatim>\<open>flags\<close> and
  \<^verbatim>\<open>comp[0].step\<close>. The table behind \<^verbatim>\<open>av_pix_fmt_desc_get\<close> lives in libavutil and is a
  parameter of the model.
\<close>

record AVPixFmtDescriptor =
  flags :: "64 word"
  comp0_step :: c_int

definition supported_formats :: "AVPixelFormat list" where
  "supported_formats =
     [AV_PIX_FMT_RGB24, AV_PIX_FMT_BGR24, AV_PIX_FMT_0RGB32, AV_PIX_FMT_0BGR32,
      AV_PIX_FMT_RGBA, AV_PIX_FMT_BGRA]"

text \<open>The \<^verbatim>\<open>for\<close> loop of \<^verbatim>\<open>format_is_supported\<close>, over the part of the array still to visit.\<close>

fun format_is_supported_loop :: "AVPixelFormat list \<Rightarrow> AVPixelFormat \<Rightarrow> int" where
  "format_is_supported_loop [] fmt = 0"
| "format_is_supported_loop (f # rest) fmt =
     (if f = fmt then 1 else format_is_supported_loop rest fmt)"

definition format_is_supported :: "AVPixelFormat \<Rightarrow> int" where
  "format_is_supported fmt = format_is_supported_loop supported_formats fmt"

subsection \<open>Frames, hardware-frame contexts, tensors\<close>

text \<open>
  \<^verbatim>\<open>AVHWFramesContext\<close> with the members the filter reads or writes; \<^verbatim>\<open>cuda_ctx\<close> and
  \<^verbatim>\<open>stream\<close> are those of the \<^verbatim>\<open>AVCUDADeviceContext\<close> behind \<^verbatim>\<open>device_ctx->hwctx\<close>.
\<close>

record AVHWFramesContext =
  format :: AVPixelFormat
  sw_format :: AVPixelFormat
  width :: c_int
  height :: c_int
  cuda_ctx :: CUcontext
  stream :: CUstream

text \<open>
  The metadata \<^verbatim>\<open>av_frame_copy_props\<close> transfers: timestamps and side data (type and
  payload of each entry).
\<close>

record AVFrameProps =
  pts :: int64_t
  pkt_dts :: int64_t
  duration :: int64_t
  side_data :: "(nat \<times> 8 word list) list"

text \<open>
  \<^verbatim>\<open>AVFrame\<close>: \<open>frame_ref\<close> is the address of the frame object (its identity, what
  \<^verbatim>\<open>av_frame_free\<close> receives), \<open>data0\<close> and \<open>linesize0\<close> are \<^verbatim>\<open>data[0]\<close> and \<^verbatim>\<open>linesize[0]\<close>.
\<close>

record AVFrame =
  frame_ref :: pointer
  data0 :: pointer
  linesize0 :: c_int
  frame_width :: c_int
  frame_height :: c_int
  props :: AVFrameProps

datatype NVCVDataType = NVCV_DATA_TYPE_NONE | NVCV_DATA_TYPE_U8

datatype NVCVTensorBufferType = NVCV_TENSOR_BUFFER_NONE | NVCV_TENSOR_BUFFER_STRIDED_CUDA

text \<open>
  A tensor layout is the value \<^verbatim>\<open>nvcvTensorLayoutMake\<close> builds from a descriptor string;
  the zero-initialised layout of a fresh filter context is the one of the empty string.
\<close>

datatype NVCVTensorLayout = TensorLayout string

text \<open>
  \<^verbatim>\<open>NVCVTensorData\<close>. Only the first \<open>rank\<close> entries of \<^verbatim>\<open>shape\<close> and \<^verbatim>\<open>strides\<close> are
  meaningful; the lists hold those four (\<^verbatim>\<open>int64_t\<close> each).
\<close>

record NVCVTensorData =
  dtype :: NVCVDataType
  rank :: int
  bufferType :: NVCVTensorBufferType
  shape :: "int64_t list"
  strides :: "int64_t list"
  basePtr :: pointer
  layout :: NVCVTensorLayout

text \<open>
  \<^verbatim>\<open>FlipNvcvContext\<close>. \<^verbatim>\<open>hw_frames_ctx\<close> is an \<^verbatim>\<open>AVBufferRef *\<close>: \<open>None\<close> is \<^verbatim>\<open>NULL\<close>. The
  member \<^verbatim>\<open>interpolation\<close> is never used and is left out; the tensor layout member is
  \<open>cv_layout\<close> (the name \<^verbatim>\<open>layout\<close> is the tensor's).
\<close>

record FlipNvcvContext =
  frame_h :: c_int
  frame_w :: c_int
  in_fmt :: AVPixelFormat
  out_fmt :: AVPixelFormat
  hw_frames_ctx :: "AVHWFramesContext option"
  flip_handle :: NVCVOperatorHandle
  cv_layout :: NVCVTensorLayout
  flip_code :: int

subsection \<open>The world outside the filter\<close>

text \<open>
  An image: rows of pixels, a pixel being its channel bytes. GPU memory is byte-addressed.
\<close>

type_synonym image = "8 word list list list"
type_synonym memory = "pointer \<Rightarrow> 8 word"

datatype event =
    Ev_cuCtxPushCurrent CUcontext CUresult
  | Ev_cuCtxPopCurrent CUresult
  | Ev_av_hwframe_ctx_alloc bool
  | Ev_av_hwframe_ctx_init int
  | Ev_av_buffer_unref
  | Ev_av_buffer_ref bool
  | Ev_cvcudaFlipCreate NVCVStatus
  | Ev_nvcvTensorLayoutMake string NVCVStatus
  | Ev_nvcvOperatorDestroy NVCVOperatorHandle
  | Ev_av_frame_alloc "pointer option"
  | Ev_av_hwframe_get_buffer pointer int
  | Ev_nvcvTensorWrapDataConstruct NVCVTensorData NVCVStatus
  | Ev_cvcudaFlipSubmit NVCVOperatorHandle CUstream
      "NVCVTensorData option" "NVCVTensorData option" int NVCVStatus
  | Ev_av_frame_copy_props pointer pointer int
  | Ev_av_frame_free pointer
  | Ev_ff_filter_frame AVFrame
  | Ev_av_log string int

record world =
  ctx_stack :: "CUcontext list"
  gpu_mem :: memory
  trace :: "event list"

definition emit :: "event \<Rightarrow> world \<Rightarrow> world" where
  "emit e w = w\<lparr>trace := trace w @ [e]\<rparr>"

text \<open>
  What the external calls return, one field for each call site. A call wrapped in
  \<^verbatim>\<open>CK_NVCV\<close> has two responses, because the macro evaluates its argument a second time when
  the first evaluation reports a failure (see \<open>CK_NVCV\<close> below).
\<close>

record responses =
  r_cuCtxPushCurrent :: CUresult
  r_cuCtxPopCurrent :: CUresult
  r_av_hwframe_ctx_alloc :: bool
  r_av_hwframe_ctx_init :: int
  r_av_buffer_ref :: bool
  r_cvcudaFlipCreate :: "NVCVStatus \<times> NVCVStatus"
  r_new_handle :: NVCVOperatorHandle
  r_nvcvTensorLayoutMake :: "NVCVStatus \<times> NVCVStatus"
  r_av_frame_alloc :: "pointer option"
  r_av_hwframe_get_buffer :: int
  r_pool_data0 :: pointer
  r_pool_linesize0 :: c_int
  r_pool_width :: c_int
  r_pool_height :: c_int
  r_wrap_in :: "NVCVStatus \<times> NVCVStatus"
  r_wrap_out :: "NVCVStatus \<times> NVCVStatus"
  r_cvcudaFlipSubmit :: "NVCVStatus \<times> NVCVStatus"
  r_av_frame_copy_props :: int
  r_ff_filter_frame :: int

subsection \<open>The external calls\<close>

text \<open>
  The CUDA driver keeps a stack of contexts for the calling thread. A successful push puts
  the context on top, a successful pop removes the top; a call that fails changes nothing.
\<close>

definition cuCtxPushCurrent :: "CUresult \<Rightarrow> CUcontext \<Rightarrow> world \<Rightarrow> world" where
  "cuCtxPushCurrent r ctx w =
     emit (Ev_cuCtxPushCurrent ctx r)
       (if r = CUDA_SUCCESS then w\<lparr>ctx_stack := ctx # ctx_stack w\<rparr> else w)"

definition cuCtxPopCurrent :: "CUresult \<Rightarrow> world \<Rightarrow> world" where
  "cuCtxPopCurrent r w =
     emit (Ev_cuCtxPopCurrent r)
       (if r = CUDA_SUCCESS then w\<lparr>ctx_stack := tl (ctx_stack w)\<rparr> else w)"

text \<open>
  \<^verbatim>\<open>check_cu\<close> logs a driver error and tells success from failure; \<^verbatim>\<open>CHECK_CU(x)\<close> is used
  as a statement everywhere in the file, so its value is dropped.
\<close>

definition check_cu :: "CUresult \<Rightarrow> world \<Rightarrow> int \<times> world" where
  "check_cu e w =
     (if e \<noteq> CUDA_SUCCESS then (0, emit (Ev_av_log ''CUDA driver API error'' e) w)
      else (1, w))"

definition CHECK_CU :: "CUresult \<Rightarrow> world \<Rightarrow> world" where
  "CHECK_CU e w = snd (check_cu e w)"

text \<open>
  \<^verbatim>\<open>#define CK_NVCV(ret) if (ret != NVCV_SUCCESS) av_log(ctx, AV_LOG_ERROR, "...", ret, __LINE__);\<close>

  The macro parameter stands twice in the body and is not parenthesised. The argument
  expression is therefore evaluated once in the comparison and, when that evaluation
  reports a failure, a second time as the value to print. \<open>arg c st\<close> is one evaluation of
  the argument expression, the library answering \<open>st\<close>; \<open>c\<close> tells the evaluation inside
  the comparison from the one inside the call of \<^verbatim>\<open>av_log\<close>. Nothing but the log depends on
  the status.
\<close>

definition CK_NVCV ::
  "NVCVStatus \<times> NVCVStatus \<Rightarrow> (bool \<Rightarrow> NVCVStatus \<Rightarrow> 'l \<times> world \<Rightarrow> 'l \<times> world) \<Rightarrow>
   'l \<times> world \<Rightarrow> 'l \<times> world" where
  "CK_NVCV r arg st =
     (let st1 = arg True (fst r) st
      in if fst r \<noteq> NVCV_SUCCESS
         then (case arg False (snd r) st1 of
                 (l, w) \<Rightarrow> (l, emit (Ev_av_log ''NVCV error'' (snd r)) w))
         else st1)"

text \<open>
  \<^verbatim>\<open>cvcudaFlipCreate(&s->flip_handle, 1)\<close> and \<^verbatim>\<open>nvcvTensorLayoutMake("NHWC", &s->layout)\<close>
  write their result through the pointer when they succeed.
\<close>

definition cvcudaFlipCreate ::
  "NVCVOperatorHandle \<Rightarrow> NVCVStatus \<Rightarrow> FlipNvcvContext \<times> world \<Rightarrow> FlipNvcvContext \<times> world" where
  "cvcudaFlipCreate h st sw =
     (case sw of (s, w) \<Rightarrow>
        (if st = NVCV_SUCCESS then s\<lparr>flip_handle := h\<rparr> else s,
         emit (Ev_cvcudaFlipCreate st) w))"

definition nvcvTensorLayoutMake ::
  "string \<Rightarrow> NVCVStatus \<Rightarrow> FlipNvcvContext \<times> world \<Rightarrow> FlipNvcvContext \<times> world" where
  "nvcvTensorLayoutMake descr st sw =
     (case sw of (s, w) \<Rightarrow>
        (if st = NVCV_SUCCESS then s\<lparr>cv_layout := TensorLayout descr\<rparr> else s,
         emit (Ev_nvcvTensorLayoutMake descr st) w))"

text \<open>
  Modelled from the spec: the flip operator itself, which the external operator library
  implements and this repository only calls. Code 0 mirrors the rows (row \<open>r\<close> becomes row
  \<open>height - 1 - r\<close>), code 1 mirrors the columns of every row, code -1 does both. The
  option table admits no other code; for one the model leaves the image as it is.
\<close>

definition cvcudaFlip :: "int \<Rightarrow> image \<Rightarrow> image" where
  "cvcudaFlip code img =
     (if code = 0 then rev img
      else if code = 1 then map rev img
      else if code = - 1 then rev (map rev img)
      else img)"

text \<open>
  Modelled from the spec: how the operator sees a tensor, which the spec describes as a
  4-D strided view (batch 1, height, width, channel bytes) of existing GPU memory. The
  byte of row \<open>r\<close>, column \<open>c\<close> and channel \<open>k\<close> lies at the base pointer plus \<open>r\<close>, \<open>c\<close>
  and \<open>k\<close> times the strides of the height, width and channel axes; the extents are the
  entries 1 to 3 of the shape. Reading a tensor gives the image it views; writing an image
  through a tensor stores each byte of the image at the address of its cell and leaves
  every other byte of the memory alone.
\<close>

definition tensor_height :: "NVCVTensorData \<Rightarrow> nat" where
  "tensor_height d = nat (sint (shape d ! 1))"

definition tensor_width :: "NVCVTensorData \<Rightarrow> nat" where
  "tensor_width d = nat (sint (shape d ! 2))"

definition tensor_channels :: "NVCVTensorData \<Rightarrow> nat" where
  "tensor_channels d = nat (sint (shape d ! 3))"

definition tensor_addr :: "NVCVTensorData \<Rightarrow> nat \<Rightarrow> nat \<Rightarrow> nat \<Rightarrow> pointer" where
  "tensor_addr d r c k =
     basePtr d + r * nat (sint (strides d ! 1)) + c * nat (sint (strides d ! 2)) +
     k * nat (sint (strides d ! 3))"

definition tensor_cells :: "NVCVTensorData \<Rightarrow> (nat \<times> nat \<times> nat) list" where
  "tensor_cells d =
     concat (map (\<lambda>r. concat (map (\<lambda>c. map (\<lambda>k. (r, c, k)) [0..<tensor_channels d])
                                   [0..<tensor_width d]))
                 [0..<tensor_height d])"

definition tensor_read :: "NVCVTensorData \<Rightarrow> memory \<Rightarrow> image" where
  "tensor_read d m =
     map (\<lambda>r. map (\<lambda>c. map (\<lambda>k. m (tensor_addr d r c k)) [0..<tensor_channels d])
                    [0..<tensor_width d])
         [0..<tensor_height d]"

definition tensor_write :: "NVCVTensorData \<Rightarrow> image \<Rightarrow> memory \<Rightarrow> memory" where
  "tensor_write d img m =
     (\<lambda>a. case find (\<lambda>(r, c, k). tensor_addr d r c k = a) (tensor_cells d) of
             None \<Rightarrow> m a
           | Some (r, c, k) \<Rightarrow> img ! r ! c ! k)"

text \<open>
  Modelled from the spec: the operands the flip accepts are two rank-4 NHWC tensors of
  bytes in strided CUDA memory, of batch 1 and of the same shape. (The shape and the
  strides then have their four entries, and the flipped image has the extents of the
  output tensor, so that no index above is out of range.)
\<close>

definition flip_operand_ok :: "NVCVTensorData \<Rightarrow> bool" where
  "flip_operand_ok d \<longleftrightarrow>
     dtype d = NVCV_DATA_TYPE_U8 \<and> rank d = 4 \<and>
     bufferType d = NVCV_TENSOR_BUFFER_STRIDED_CUDA \<and>
     layout d = TensorLayout ''NHWC'' \<and>
     length (shape d) = 4 \<and> length (strides d) = 4 \<and> shape d ! 0 = 1"

definition flip_operands_ok :: "NVCVTensorData \<Rightarrow> NVCVTensorData \<Rightarrow> bool" where
  "flip_operands_ok di dd \<longleftrightarrow> flip_operand_ok di \<and> flip_operand_ok dd \<and> shape di = shape dd"

text \<open>
  \<^verbatim>\<open>cvcudaFlipSubmit\<close> enqueues the flip on the stream. Work on one stream runs in submission
  order, so the model applies it at once: when the call succeeds on two constructed tensors
  that the operator accepts, the image read through the input tensor is flipped and written
  through the output tensor. A tensor handle whose construction failed is an uninitialised
  variable (\<open>None\<close>); the model takes a submission with one to have no effect.
\<close>

definition cvcudaFlipSubmit ::
  "NVCVOperatorHandle \<Rightarrow> CUstream \<Rightarrow> NVCVTensorData option \<Rightarrow> NVCVTensorData option \<Rightarrow>
   int \<Rightarrow> NVCVStatus \<Rightarrow> world \<Rightarrow> world" where
  "cvcudaFlipSubmit h strm tin tout code st w =
     emit (Ev_cvcudaFlipSubmit h strm tin tout code st)
       (case tin of
          None \<Rightarrow> w
        | Some di \<Rightarrow>
            (case tout of
               None \<Rightarrow> w
             | Some dd \<Rightarrow>
                 if st = NVCV_SUCCESS \<and> flip_operands_ok di dd
                 then w\<lparr>gpu_mem :=
                          tensor_write dd (cvcudaFlip code (tensor_read di (gpu_mem w)))
                            (gpu_mem w)\<rparr>
                 else w))"

text \<open>\<^verbatim>\<open>av_frame_alloc\<close> returns a frame with default fields; \<^verbatim>\<open>AV_NOPTS_VALUE\<close> is \<^verbatim>\<open>INT64_MIN\<close>.\<close>

definition AV_NOPTS_VALUE :: int64_t where
  "AV_NOPTS_VALUE = push_bit 63 1"

definition blank_frame :: "pointer \<Rightarrow> AVFrame" where
  "blank_frame a =
     \<lparr>frame_ref = a, data0 = 0, linesize0 = 0, frame_width = 0, frame_height = 0,
      props = \<lparr>pts = AV_NOPTS_VALUE, pkt_dts = AV_NOPTS_VALUE, duration = 0, side_data = []\<rparr>\<rparr>"

text \<open>\<^verbatim>\<open>av_frame_free(&p)\<close> does nothing when \<^verbatim>\<open>p\<close> is \<^verbatim>\<open>NULL\<close>.\<close>

definition av_frame_free :: "AVFrame option \<Rightarrow> world \<Rightarrow> world" where
  "av_frame_free p w = (case p of None \<Rightarrow> w | Some f \<Rightarrow> emit (Ev_av_frame_free (frame_ref f)) w)"

text \<open>
  \<^verbatim>\<open>av_hwframe_get_buffer\<close> hands a buffer of the pool to the frame when it succeeds;
  \<^verbatim>\<open>av_frame_copy_props(dst, src)\<close> gives \<^verbatim>\<open>dst\<close> the metadata of \<^verbatim>\<open>src\<close> when it succeeds.
\<close>

definition av_hwframe_get_buffer :: "responses \<Rightarrow> AVFrame \<Rightarrow> AVFrame" where
  "av_hwframe_get_buffer env f =
     (if r_av_hwframe_get_buffer env < 0 then f
      else f\<lparr>data0 := r_pool_data0 env, linesize0 := r_pool_linesize0 env,
             frame_width := r_pool_width env, frame_height := r_pool_height env\<rparr>)"

definition av_frame_copy_props :: "int \<Rightarrow> AVFrame \<Rightarrow> AVFrame \<Rightarrow> AVFrame" where
  "av_frame_copy_props r dst src = (if r < 0 then dst else dst\<lparr>props := props src\<rparr>)"

subsection \<open>config\_props\<close>

record config_result =
  cr_ret :: int
  cr_priv :: FlipNvcvContext
  cr_outlink_hw_frames_ctx :: "AVHWFramesContext option"
  cr_world :: world

text \<open>
  \<open>s\<close> is the filter's private context, \<open>in_frame_ctx\<close> the hardware-frame context of the
  input link. The result holds the return value, the private context and the
  \<^verbatim>\<open>hw_frames_ctx\<close> of the output link as the function leaves them (\<open>None\<close> while the link
  has none).
\<close>

definition config_props ::
  "responses \<Rightarrow> FlipNvcvContext \<Rightarrow> AVHWFramesContext \<Rightarrow> world \<Rightarrow> config_result" where
  "config_props env s in_frame_ctx w0 =
     (let w1 = CHECK_CU (r_cuCtxPushCurrent env)
                 (cuCtxPushCurrent (r_cuCtxPushCurrent env) (cuda_ctx in_frame_ctx) w0);
          w2 = emit (Ev_av_hwframe_ctx_alloc (r_av_hwframe_ctx_alloc env)) w1
      in if \<not> r_av_hwframe_ctx_alloc env
         then \<lparr>cr_ret = AVERROR ENOMEM, cr_priv = s, cr_outlink_hw_frames_ctx = None,
               cr_world = w2\<rparr>
         else
           let s1 = s\<lparr>in_fmt := sw_format in_frame_ctx\<rparr>;
               s2 = s1\<lparr>out_fmt := in_fmt s1\<rparr>;
               out_ctx = \<lparr>format = AV_PIX_FMT_CUDA, sw_format = out_fmt s2,
                          width = width in_frame_ctx, height = height in_frame_ctx,
                          cuda_ctx = cuda_ctx in_frame_ctx, stream = stream in_frame_ctx\<rparr>
           in if format_is_supported (in_fmt s2) = 0
              then \<lparr>cr_ret = AVERROR ENOSYS, cr_priv = s2, cr_outlink_hw_frames_ctx = None,
                    cr_world = emit (Ev_av_log ''Unsupported input format'' 0) w2\<rparr>
              else if format_is_supported (out_fmt s2) = 0
              then \<lparr>cr_ret = AVERROR ENOSYS, cr_priv = s2, cr_outlink_hw_frames_ctx = None,
                    cr_world = emit (Ev_av_log ''Unsupported output format'' 0) w2\<rparr>
              else
                let s3 = s2\<lparr>frame_w := width in_frame_ctx, frame_h := height in_frame_ctx\<rparr>;
                    ret = r_av_hwframe_ctx_init env;
                    w3 = emit (Ev_av_hwframe_ctx_init ret) w2
                in if ret < 0
                   then \<lparr>cr_ret = ret, cr_priv = s3, cr_outlink_hw_frames_ctx = None,
                         cr_world = emit Ev_av_buffer_unref w3\<rparr>
                   else
                     let s4 = s3\<lparr>hw_frames_ctx := Some out_ctx\<rparr>;
                         w4 = emit (Ev_av_buffer_ref (r_av_buffer_ref env)) w3
                     in if \<not> r_av_buffer_ref env
                        then \<lparr>cr_ret = AVERROR ENOMEM, cr_priv = s4,
                              cr_outlink_hw_frames_ctx = None, cr_world = w4\<rparr>
                        else
                          let w5 = CHECK_CU (r_cuCtxPopCurrent env)
                                     (cuCtxPopCurrent (r_cuCtxPopCurrent env) w4);
                              sw6 = CK_NVCV (r_cvcudaFlipCreate env)
                                      (\<lambda>c. cvcudaFlipCreate (r_new_handle env)) (s4, w5);
                              sw7 = CK_NVCV (r_nvcvTensorLayoutMake env)
                                      (\<lambda>c. nvcvTensorLayoutMake ''NHWC'') sw6
                          in \<lparr>cr_ret = 0, cr_priv = fst sw7,
                              cr_outlink_hw_frames_ctx = Some out_ctx, cr_world = snd sw7\<rparr>)"

subsection \<open>filter\_frame\<close>

text \<open>
  The local variables the operator calls write: \<^verbatim>\<open>ret\<close> and the two tensor handles.
  In \<^verbatim>\<open>CK_NVCV(ret = f(...))\<close> the comparison reads \<^verbatim>\<open>ret = f(...) != NVCV_SUCCESS\<close>, which
  assigns the truth value of the comparison; the evaluation inside \<^verbatim>\<open>av_log\<close> reads
  \<^verbatim>\<open>ret = f(...)\<close> and assigns the status.
\<close>

record locals =
  ret :: int
  cv_in_handle :: "NVCVTensorData option"
  cv_out_handle :: "NVCVTensorData option"

definition assigned_ret :: "bool \<Rightarrow> NVCVStatus \<Rightarrow> int" where
  "assigned_ret c st = (if c then (if st \<noteq> NVCV_SUCCESS then 1 else 0) else st)"

definition wrap_in ::
  "NVCVTensorData \<Rightarrow> bool \<Rightarrow> NVCVStatus \<Rightarrow> locals \<times> world \<Rightarrow> locals \<times> world" where
  "wrap_in d c st lw =
     (case lw of (l, w) \<Rightarrow>
        (l\<lparr>ret := assigned_ret c st,
           cv_in_handle := (if st = NVCV_SUCCESS then Some d else cv_in_handle l)\<rparr>,
         emit (Ev_nvcvTensorWrapDataConstruct d st) w))"

definition wrap_out ::
  "NVCVTensorData \<Rightarrow> bool \<Rightarrow> NVCVStatus \<Rightarrow> locals \<times> world \<Rightarrow> locals \<times> world" where
  "wrap_out d c st lw =
     (case lw of (l, w) \<Rightarrow>
        (l\<lparr>ret := assigned_ret c st,
           cv_out_handle := (if st = NVCV_SUCCESS then Some d else cv_out_handle l)\<rparr>,
         emit (Ev_nvcvTensorWrapDataConstruct d st) w))"

definition submit ::
  "NVCVOperatorHandle \<Rightarrow> CUstream \<Rightarrow> int \<Rightarrow> bool \<Rightarrow> NVCVStatus \<Rightarrow> locals \<times> world \<Rightarrow>
   locals \<times> world" where
  "submit h strm code c st lw =
     (case lw of (l, w) \<Rightarrow>
        (l\<lparr>ret := assigned_ret c st\<rparr>,
         cvcudaFlipSubmit h strm (cv_in_handle l) (cv_out_handle l) code st w))"

text \<open>
  The descriptor the block under \<^verbatim>\<open>if (desc_src->flags & AV_PIX_FMT_FLAG_RGB)\<close> fills in for
  a frame: the same assignments for \<^verbatim>\<open>cv_in_data\<close> (from \<^verbatim>\<open>in\<close>, \<^verbatim>\<open>desc_src\<close>) and for
  \<^verbatim>\<open>cv_out_data\<close> (from \<^verbatim>\<open>out\<close>, \<^verbatim>\<open>desc_dst\<close>). The operands are \<^verbatim>\<open>int\<close>: the product is a
  32-bit one, and every value is sign-extended to \<^verbatim>\<open>int64_t\<close> when stored.
\<close>

definition cv_data :: "AVFrame \<Rightarrow> AVPixFmtDescriptor \<Rightarrow> NVCVTensorLayout \<Rightarrow> NVCVTensorData" where
  "cv_data f desc lay =
     \<lparr>dtype = NVCV_DATA_TYPE_U8, rank = 4, bufferType = NVCV_TENSOR_BUFFER_STRIDED_CUDA,
      shape = [1, scast (frame_height f), scast (frame_width f), scast (comp0_step desc)],
      strides = [scast (frame_height f * linesize0 f), scast (linesize0 f),
                 scast (comp0_step desc), 1],
      basePtr = data0 f,
      layout = lay\<rparr>"

text \<open>The label \<^verbatim>\<open>fail\<close>: both frames are freed and \<^verbatim>\<open>ret\<close> is returned.\<close>

definition filter_frame_fail :: "int \<Rightarrow> AVFrame \<Rightarrow> AVFrame option \<Rightarrow> world \<Rightarrow> int \<times> world" where
  "filter_frame_fail r inp out w = (r, av_frame_free out (av_frame_free (Some inp) w))"

text \<open>
  \<open>desc_get\<close> is \<^verbatim>\<open>av_pix_fmt_desc_get\<close>, \<open>frames_ctx\<close> the hardware-frame context of the
  input link and \<open>inp\<close> the frame \<^verbatim>\<open>in\<close>. The result is the return value and the world the
  call leaves; the frame handed to \<^verbatim>\<open>ff_filter_frame\<close> is in the trace.
\<close>

definition filter_frame ::
  "(AVPixelFormat \<Rightarrow> AVPixFmtDescriptor) \<Rightarrow> responses \<Rightarrow> FlipNvcvContext \<Rightarrow>
   AVHWFramesContext \<Rightarrow> AVFrame \<Rightarrow> world \<Rightarrow> int \<times> world" where
  "filter_frame desc_get env s frames_ctx inp w0 =
     (let desc_src = desc_get (in_fmt s);
          desc_dst = desc_get (out_fmt s);
          w1 = emit (Ev_av_frame_alloc (r_av_frame_alloc env)) w0
      in case r_av_frame_alloc env of
           None \<Rightarrow> filter_frame_fail (AVERROR ENOMEM) inp None w1
         | Some a \<Rightarrow>
             let out0 = blank_frame a;
                 w2 = CHECK_CU (r_cuCtxPushCurrent env)
                        (cuCtxPushCurrent (r_cuCtxPushCurrent env) (cuda_ctx frames_ctx) w1);
                 ret1 = r_av_hwframe_get_buffer env;
                 out1 = av_hwframe_get_buffer env out0;
                 w3 = emit (Ev_av_hwframe_get_buffer a ret1) w2
             in if ret1 < 0 then filter_frame_fail ret1 inp (Some out1) w3
                else
                  let lw4 =
                        (if flags desc_src AND AV_PIX_FMT_FLAG_RGB \<noteq> 0
                         then
                           let cv_in_data = cv_data inp desc_src (cv_layout s);
                               cv_out_data = cv_data out1 desc_dst (cv_layout s);
                               lwa = CK_NVCV (r_wrap_in env) (wrap_in cv_in_data)
                                       (\<lparr>ret = ret1, cv_in_handle = None, cv_out_handle = None\<rparr>, w3);
                               lwb = CK_NVCV (r_wrap_out env) (wrap_out cv_out_data) lwa
                           in CK_NVCV (r_cvcudaFlipSubmit env)
                                (submit (flip_handle s) (stream frames_ctx) (flip_code s)) lwb
                         else (\<lparr>ret = ret1, cv_in_handle = None, cv_out_handle = None\<rparr>, w3));
                      w5 = CHECK_CU (r_cuCtxPopCurrent env)
                             (cuCtxPopCurrent (r_cuCtxPopCurrent env) (snd lw4));
                      ret2 = r_av_frame_copy_props env;
                      out2 = av_frame_copy_props ret2 out1 inp;
                      w6 = emit (Ev_av_frame_copy_props (frame_ref out1) (frame_ref inp) ret2) w5
                  in if ret2 < 0 then filter_frame_fail ret2 inp (Some out2) w6
                     else
                       let w7 = av_frame_free (Some inp) w6
                       in (r_ff_filter_frame env, emit (Ev_ff_filter_frame out2) w7))"

subsection \<open>uninit and the life of a filter instance\<close>

definition uninit :: "FlipNvcvContext \<Rightarrow> world \<Rightarrow> world" where
  "uninit s w = emit (Ev_nvcvOperatorDestroy (flip_handle s)) w"

text \<open>
  The host drives an instance through three phases: it configures the output link, then
  hands frames to \<^verbatim>\<open>filter_frame\<close> one at a time, then tears the instance down. A
  configuration that fails is fatal: no frame is processed, and the instance is torn down.
\<close>

fun process_frames ::
  "(AVPixelFormat \<Rightarrow> AVPixFmtDescriptor) \<Rightarrow> FlipNvcvContext \<Rightarrow> AVHWFramesContext \<Rightarrow>
   (responses \<times> AVFrame) list \<Rightarrow> world \<Rightarrow> world" where
  "process_frames desc_get s frames_ctx [] w = w"
| "process_frames desc_get s frames_ctx ((env, inp) # rest) w =
     process_frames desc_get s frames_ctx rest
       (snd (filter_frame desc_get env s frames_ctx inp w))"

definition lifecycle ::
  "(AVPixelFormat \<Rightarrow> AVPixFmtDescriptor) \<Rightarrow> responses \<Rightarrow> (responses \<times> AVFrame) list \<Rightarrow>
   FlipNvcvContext \<Rightarrow> AVHWFramesContext \<Rightarrow> world \<Rightarrow> world" where
  "lifecycle desc_get cenv frames s0 in_frame_ctx w0 =
     (let c = config_props cenv s0 in_frame_ctx w0;
          w1 = (if cr_ret c < 0 then cr_world c
                else process_frames desc_get (cr_priv c) in_frame_ctx frames (cr_world c))
      in uninit (cr_priv c) w1)"

subsection \<open>Reading the trace\<close>

text \<open>The calls a function adds to the trace of the world it starts from.\<close>

definition events_since :: "world \<Rightarrow> world \<Rightarrow> event list" where
  "events_since w w' = drop (length (trace w)) (trace w')"

text \<open>The frames handed to \<^verbatim>\<open>av_frame_free\<close>, in order.\<close>

fun freed :: "event list \<Rightarrow> pointer list" where
  "freed [] = []"
| "freed (Ev_av_frame_free p # es) = p # freed es"
| "freed (e # es) = freed es"

text \<open>The statuses of the calls of \<^verbatim>\<open>cvcudaFlipCreate\<close>, in order.\<close>

fun create_calls :: "event list \<Rightarrow> NVCVStatus list" where
  "create_calls [] = []"
| "create_calls (Ev_cvcudaFlipCreate st # es) = st # create_calls es"
| "create_calls (e # es) = create_calls es"

text \<open>The handles given to \<^verbatim>\<open>nvcvOperatorDestroy\<close>, in order.\<close>

fun destroy_calls :: "event list \<Rightarrow> NVCVOperatorHandle list" where
  "destroy_calls [] = []"
| "destroy_calls (Ev_nvcvOperatorDestroy h # es) = h # destroy_calls es"
| "destroy_calls (e # es) = destroy_calls es"

text \<open>The frames handed to \<^verbatim>\<open>ff_filter_frame\<close>, in order.\<close>

fun forwarded :: "event list \<Rightarrow> AVFrame list" where
  "forwarded [] = []"
| "forwarded (Ev_ff_filter_frame f # es) = f # forwarded es"
| "forwarded (e # es) = forwarded es"

text \<open>
  The calls that create an operator, wrap a tensor, submit an operation or allocate an
  output frame (the frame object or its buffer from the pool).
\<close>

fun is_gpu_work :: "event \<Rightarrow> bool" where
  "is_gpu_work (Ev_cvcudaFlipCreate st) = True"
| "is_gpu_work (Ev_nvcvTensorWrapDataConstruct d st) = True"
| "is_gpu_work (Ev_cvcudaFlipSubmit h strm tin tout code st) = True"
| "is_gpu_work (Ev_av_frame_alloc p) = True"
| "is_gpu_work (Ev_av_hwframe_get_buffer p r) = True"
| "is_gpu_work e = False"

fun is_operator_call :: "event \<Rightarrow> bool" where
  "is_operator_call (Ev_nvcvTensorWrapDataConstruct d st) = True"
| "is_operator_call (Ev_cvcudaFlipSubmit h strm tin tout code st) = True"
| "is_operator_call e = False"

text \<open>
  The image a frame of a packed format holds: the pixel of row \<open>r\<close> and column \<open>c\<close> is the
  \<open>step\<close> bytes at \<^verbatim>\<open>data[0] + r * linesize[0] + c * step\<close>.
\<close>

definition frame_image :: "AVFrame \<Rightarrow> c_int \<Rightarrow> memory \<Rightarrow> image" where
  "frame_image f step m =
     map (\<lambda>r. map (\<lambda>c. map (\<lambda>k. m (data0 f + r * nat (sint (linesize0 f)) +
                                       c * nat (sint step) + k))
                              [0..<nat (sint step)])
                    [0..<nat (sint (frame_width f))])
         [0..<nat (sint (frame_height f))]"

text \<open>
  What the claim about tensor descriptors says of a descriptor \<open>d\<close> and the frame \<open>f\<close> it
  views, \<open>step\<close> being the byte step of the format's first component: a rank-4 strided view
  of bytes with shape (1, height, width, step), strides (height * linesize, linesize, step,
  1) and the frame's first data plane as base pointer. The numbers are those of the C
  expressions: \<^verbatim>\<open>int\<close> operands, the result stored in an \<^verbatim>\<open>int64_t\<close>.
\<close>

definition strided_view_of :: "NVCVTensorData \<Rightarrow> AVFrame \<Rightarrow> c_int \<Rightarrow> bool" where
  "strided_view_of d f step \<longleftrightarrow>
     dtype d = NVCV_DATA_TYPE_U8 \<and> rank d = 4 \<and>
     bufferType d = NVCV_TENSOR_BUFFER_STRIDED_CUDA \<and>
     shape d = [1, scast (frame_height f), scast (frame_width f), scast step] \<and>
     strides d = [scast (frame_height f * linesize0 f), scast (linesize0 f), scast step, 1] \<and>
     basePtr d = data0 f"

subsection \<open>Closed forms of the traces\<close>

text \<open>
  Vocabulary for stating what a run adds to the world: the log entry of \<^verbatim>\<open>CHECK_CU\<close>, the
  calls a \<^verbatim>\<open>CK_NVCV\<close> statement makes, whether one of its evaluations succeeded and the
  value it leaves in \<^verbatim>\<open>ret\<close>, the effect of the submitted flip on the GPU memory, and the
  context stack after a push and after a pop.
\<close>

definition cu_log :: "CUresult \<Rightarrow> event list" where
  "cu_log r = (if r \<noteq> CUDA_SUCCESS then [Ev_av_log ''CUDA driver API error'' r] else [])"

definition ck_events :: "NVCVStatus \<times> NVCVStatus \<Rightarrow> (NVCVStatus \<Rightarrow> event) \<Rightarrow> event list" where
  "ck_events r ev =
     (if fst r \<noteq> NVCV_SUCCESS then [ev (fst r), ev (snd r), Ev_av_log ''NVCV error'' (snd r)]
      else [ev (fst r)])"

definition ck_ret :: "NVCVStatus \<times> NVCVStatus \<Rightarrow> int" where
  "ck_ret r = (if fst r \<noteq> NVCV_SUCCESS then snd r else 0)"

definition ck_done :: "NVCVStatus \<times> NVCVStatus \<Rightarrow> bool" where
  "ck_done r \<longleftrightarrow> fst r = NVCV_SUCCESS \<or> snd r = NVCV_SUCCESS"

definition flip_mem ::
  "int \<Rightarrow> NVCVTensorData option \<Rightarrow> NVCVTensorData option \<Rightarrow> NVCVStatus \<times> NVCVStatus \<Rightarrow>
   memory \<Rightarrow> memory" where
  "flip_mem code tin tout r m =
     (case tin of
        None \<Rightarrow> m
      | Some di \<Rightarrow>
          (case tout of
             None \<Rightarrow> m
           | Some dd \<Rightarrow>
               if ck_done r \<and> flip_operands_ok di dd
               then tensor_write dd (cvcudaFlip code (tensor_read di m)) m else m))"

definition tensor_of :: "NVCVStatus \<times> NVCVStatus \<Rightarrow> NVCVTensorData \<Rightarrow> NVCVTensorData option" where
  "tensor_of r d = (if ck_done r then Some d else None)"

definition operator_events ::
  "(AVPixelFormat \<Rightarrow> AVPixFmtDescriptor) \<Rightarrow> responses \<Rightarrow> FlipNvcvContext \<Rightarrow>
   AVHWFramesContext \<Rightarrow> AVFrame \<Rightarrow> AVFrame \<Rightarrow> event list" where
  "operator_events desc_get env s frames_ctx inp out =
     (if flags (desc_get (in_fmt s)) AND AV_PIX_FMT_FLAG_RGB \<noteq> 0
      then
        ck_events (r_wrap_in env)
          (Ev_nvcvTensorWrapDataConstruct (cv_data inp (desc_get (in_fmt s)) (cv_layout s))) @
        ck_events (r_wrap_out env)
          (Ev_nvcvTensorWrapDataConstruct (cv_data out (desc_get (out_fmt s)) (cv_layout s))) @
        ck_events (r_cvcudaFlipSubmit env)
          (Ev_cvcudaFlipSubmit (flip_handle s) (stream frames_ctx)
             (tensor_of (r_wrap_in env) (cv_data inp (desc_get (in_fmt s)) (cv_layout s)))
             (tensor_of (r_wrap_out env) (cv_data out (desc_get (out_fmt s)) (cv_layout s)))
             (flip_code s))
      else [])"

definition operator_mem ::
  "(AVPixelFormat \<Rightarrow> AVPixFmtDescriptor) \<Rightarrow> responses \<Rightarrow> FlipNvcvContext \<Rightarrow>
   AVFrame \<Rightarrow> AVFrame \<Rightarrow> memory \<Rightarrow> memory" where
  "operator_mem desc_get env s inp out m =
     (if flags (desc_get (in_fmt s)) AND AV_PIX_FMT_FLAG_RGB \<noteq> 0
      then flip_mem (flip_code s)
             (tensor_of (r_wrap_in env) (cv_data inp (desc_get (in_fmt s)) (cv_layout s)))
             (tensor_of (r_wrap_out env) (cv_data out (desc_get (out_fmt s)) (cv_layout s)))
             (r_cvcudaFlipSubmit env) m
      else m)"

definition stack_after_push :: "CUresult \<Rightarrow> CUcontext \<Rightarrow> CUcontext list \<Rightarrow> CUcontext list" where
  "stack_after_push r c st = (if r = CUDA_SUCCESS then c # st else st)"

definition stack_after_pop :: "CUresult \<Rightarrow> CUcontext list \<Rightarrow> CUcontext list" where
  "stack_after_pop r st = (if r = CUDA_SUCCESS then tl st else st)"

definition derived_ctx :: "AVHWFramesContext \<Rightarrow> AVHWFramesContext" where
  "derived_ctx c =
     \<lparr>format = AV_PIX_FMT_CUDA, sw_format = sw_format c, width = width c, height = height c,
      cuda_ctx = cuda_ctx c, stream = stream c\<rparr>"

definition configured_priv ::
  "responses \<Rightarrow> FlipNvcvContext \<Rightarrow> AVHWFramesContext \<Rightarrow> FlipNvcvContext" where
  "configured_priv env s c =
     s\<lparr>frame_h := height c, frame_w := width c, in_fmt := sw_format c, out_fmt := sw_format c,
       hw_frames_ctx := Some (derived_ctx c),
       flip_handle := (if ck_done (r_cvcudaFlipCreate env) then r_new_handle env
                       else flip_handle s),
       cv_layout := (if ck_done (r_nvcvTensorLayoutMake env) then TensorLayout ''NHWC''
                     else cv_layout s)\<rparr>"

text \<open>An image of \<open>h\<close> rows of \<open>w\<close> pixels of \<open>n\<close> bytes.\<close>

definition image_has_shape :: "nat \<Rightarrow> nat \<Rightarrow> nat \<Rightarrow> image \<Rightarrow> bool" where
  "image_has_shape h w n img \<longleftrightarrow>
     length img = h \<and> (\<forall>row \<in> set img. length row = w \<and> (\<forall>px \<in> set row. length px = n))"

subsection \<open>Sample inputs\<close>

text \<open>
  Entries of libavutil's descriptor table for the formats named above: the packed RGB
  formats carry the RGB flag (the four-byte ones with alpha also \<^verbatim>\<open>AV_PIX_FMT_FLAG_ALPHA\<close>,
  bit 7), the planar YUV formats \<^verbatim>\<open>AV_PIX_FMT_FLAG_PLANAR\<close> (bit 4), the hardware
  format \<^verbatim>\<open>AV_PIX_FMT_FLAG_HWACCEL\<close> (bit 3).
\<close>

fun sample_desc_get :: "AVPixelFormat \<Rightarrow> AVPixFmtDescriptor" where
  "sample_desc_get AV_PIX_FMT_RGB24 = \<lparr>flags = 32, comp0_step = 3\<rparr>"
| "sample_desc_get AV_PIX_FMT_BGR24 = \<lparr>flags = 32, comp0_step = 3\<rparr>"
| "sample_desc_get AV_PIX_FMT_0RGB32 = \<lparr>flags = 32, comp0_step = 4\<rparr>"
| "sample_desc_get AV_PIX_FMT_0BGR32 = \<lparr>flags = 32, comp0_step = 4\<rparr>"
| "sample_desc_get AV_PIX_FMT_RGBA = \<lparr>flags = 160, comp0_step = 4\<rparr>"
| "sample_desc_get AV_PIX_FMT_BGRA = \<lparr>flags = 160, comp0_step = 4\<rparr>"
| "sample_desc_get AV_PIX_FMT_YUV420P = \<lparr>flags = 16, comp0_step = 1\<rparr>"
| "sample_desc_get AV_PIX_FMT_NV12 = \<lparr>flags = 16, comp0_step = 1\<rparr>"
| "sample_desc_get AV_PIX_FMT_CUDA = \<lparr>flags = 8, comp0_step = 0\<rparr>"
| "sample_desc_get (AV_PIX_FMT_OTHER n) = \<lparr>flags = 0, comp0_step = 0\<rparr>"

text \<open>Every external call succeeds; the pool hands out a 4 x 2 RGB24 buffer.\<close>

definition ok_env :: responses where
  "ok_env =
     \<lparr>r_cuCtxPushCurrent = 0, r_cuCtxPopCurrent = 0, r_av_hwframe_ctx_alloc = True,
      r_av_hwframe_ctx_init = 0, r_av_buffer_ref = True, r_cvcudaFlipCreate = (0, 0),
      r_new_handle = 7, r_nvcvTensorLayoutMake = (0, 0), r_av_frame_alloc = Some 200,
      r_av_hwframe_get_buffer = 0, r_pool_data0 = 8192, r_pool_linesize0 = 16,
      r_pool_width = 4, r_pool_height = 2, r_wrap_in = (0, 0), r_wrap_out = (0, 0),
      r_cvcudaFlipSubmit = (0, 0), r_av_frame_copy_props = 0, r_ff_filter_frame = 0\<rparr>"

text \<open>A private context as the framework allocates it: all members zero.\<close>

definition fresh_priv :: FlipNvcvContext where
  "fresh_priv =
     \<lparr>frame_h = 0, frame_w = 0, in_fmt = AV_PIX_FMT_YUV420P, out_fmt = AV_PIX_FMT_YUV420P,
      hw_frames_ctx = None, flip_handle = 0, cv_layout = TensorLayout [], flip_code = 0\<rparr>"

definition rgb_frames_ctx :: AVHWFramesContext where
  "rgb_frames_ctx =
     \<lparr>format = AV_PIX_FMT_CUDA, sw_format = AV_PIX_FMT_RGB24, width = 4, height = 2,
      cuda_ctx = 1, stream = 2\<rparr>"

definition yuv_frames_ctx :: AVHWFramesContext where
  "yuv_frames_ctx = rgb_frames_ctx\<lparr>sw_format := AV_PIX_FMT_YUV420P\<rparr>"

text \<open>The private context after a configuration on \<open>rgb_frames_ctx\<close> in which all went well.\<close>

definition rgb_priv :: FlipNvcvContext where
  "rgb_priv =
     \<lparr>frame_h = 2, frame_w = 4, in_fmt = AV_PIX_FMT_RGB24, out_fmt = AV_PIX_FMT_RGB24,
      hw_frames_ctx = Some (rgb_frames_ctx),
      flip_handle = 7, cv_layout = TensorLayout ''NHWC'', flip_code = 1\<rparr>"

text \<open>A context whose format has no RGB flag, as \<^verbatim>\<open>filter_frame\<close> would see it.\<close>

definition yuv_priv :: FlipNvcvContext where
  "yuv_priv = rgb_priv\<lparr>in_fmt := AV_PIX_FMT_YUV420P, out_fmt := AV_PIX_FMT_YUV420P\<rparr>"

definition sample_frame :: AVFrame where
  "sample_frame =
     \<lparr>frame_ref = 100, data0 = 4096, linesize0 = 16, frame_width = 4, frame_height = 2,
      props = \<lparr>pts = 42, pkt_dts = 41, duration = 1, side_data = [(1, [1, 2, 3])]\<rparr>\<rparr>"

definition sample_image :: image where
  "sample_image =
     [[[1, 2, 3], [4, 5, 6], [7, 8, 9], [10, 11, 12]],
      [[17, 18, 19], [20, 21, 22], [23, 24, 25], [26, 27, 28]]]"

definition empty_world :: world where
  "empty_world = \<lparr>ctx_stack = [], gpu_mem = (\<lambda>p. 0), trace = []\<rparr>"

text \<open>
  The 32 bytes from address 4096 hold 1, 2, ..., 32: the two rows of \<open>sample_frame\<close>, 16 bytes
  apart, of which the first 12 are pixels. Every other byte is 0.
\<close>

definition sample_world :: world where
  "sample_world =
     empty_world\<lparr>gpu_mem := (\<lambda>p. if 4096 \<le> p \<and> p < 4128 then of_nat (p - 4095) else 0)\<rparr>"

section \<open>Closed forms\<close>

text \<open>
  Each block of the two functions, and then each path through them, as one equation. The
  claims below are read off these equations.
\<close>

lemma push_eq:
  "CHECK_CU r (cuCtxPushCurrent r c w) =
     w\<lparr>ctx_stack := (if r = CUDA_SUCCESS then c # ctx_stack w else ctx_stack w),
       trace := trace w @ Ev_cuCtxPushCurrent c r # cu_log r\<rparr>"
  by (simp add: CHECK_CU_def check_cu_def cuCtxPushCurrent_def emit_def cu_log_def)

lemma pop_eq:
  "CHECK_CU r (cuCtxPopCurrent r w) =
     w\<lparr>ctx_stack := (if r = CUDA_SUCCESS then tl (ctx_stack w) else ctx_stack w),
       trace := trace w @ Ev_cuCtxPopCurrent r # cu_log r\<rparr>"
  by (simp add: CHECK_CU_def check_cu_def cuCtxPopCurrent_def emit_def cu_log_def)

lemma CK_wrap_in_eq:
  "CK_NVCV r (wrap_in d) (l, w) =
     (l\<lparr>ret := ck_ret r, cv_in_handle := (if ck_done r then Some d else cv_in_handle l)\<rparr>,
      w\<lparr>trace := trace w @ ck_events r (Ev_nvcvTensorWrapDataConstruct d)\<rparr>)"
  by (simp add: CK_NVCV_def wrap_in_def emit_def ck_events_def ck_ret_def ck_done_def
      assigned_ret_def Let_def)

lemma CK_wrap_out_eq:
  "CK_NVCV r (wrap_out d) (l, w) =
     (l\<lparr>ret := ck_ret r, cv_out_handle := (if ck_done r then Some d else cv_out_handle l)\<rparr>,
      w\<lparr>trace := trace w @ ck_events r (Ev_nvcvTensorWrapDataConstruct d)\<rparr>)"
  by (simp add: CK_NVCV_def wrap_out_def emit_def ck_events_def ck_ret_def ck_done_def
      assigned_ret_def Let_def)

lemma CK_submit_eq:
  "CK_NVCV r (submit h strm code) (l, w) =
     (l\<lparr>ret := ck_ret r\<rparr>,
      w\<lparr>gpu_mem := flip_mem code (cv_in_handle l) (cv_out_handle l) r (gpu_mem w),
        trace := trace w @
          ck_events r (Ev_cvcudaFlipSubmit h strm (cv_in_handle l) (cv_out_handle l) code)\<rparr>)"
  by (simp add: CK_NVCV_def submit_def cvcudaFlipSubmit_def emit_def ck_events_def ck_ret_def
      ck_done_def assigned_ret_def Let_def flip_mem_def split: option.splits)

lemma filter_frame_alloc_fail:
  assumes "r_av_frame_alloc env = None"
  shows "filter_frame dg env s fc inp w =
    (AVERROR ENOMEM,
     w\<lparr>trace := trace w @ [Ev_av_frame_alloc None, Ev_av_frame_free (frame_ref inp)]\<rparr>)"
  using assms by (simp add: filter_frame_def filter_frame_fail_def av_frame_free_def emit_def)

lemma filter_frame_get_buffer_fail:
  assumes "r_av_frame_alloc env = Some a" "r_av_hwframe_get_buffer env < 0"
  shows "filter_frame dg env s fc inp w =
    (r_av_hwframe_get_buffer env,
     w\<lparr>ctx_stack := stack_after_push (r_cuCtxPushCurrent env) (cuda_ctx fc) (ctx_stack w),
       trace := trace w @
         [Ev_av_frame_alloc (Some a), Ev_cuCtxPushCurrent (cuda_ctx fc) (r_cuCtxPushCurrent env)] @
         cu_log (r_cuCtxPushCurrent env) @
         [Ev_av_hwframe_get_buffer a (r_av_hwframe_get_buffer env),
          Ev_av_frame_free (frame_ref inp), Ev_av_frame_free a]\<rparr>)"
  using assms
  by (simp add: filter_frame_def filter_frame_fail_def av_frame_free_def emit_def push_eq
      Let_def stack_after_push_def av_hwframe_get_buffer_def blank_frame_def)

lemma filter_frame_buffer_ok:
  assumes "r_av_frame_alloc env = Some a" "0 \<le> r_av_hwframe_get_buffer env"
  shows "filter_frame dg env s fc inp w =
    (if r_av_frame_copy_props env < 0 then r_av_frame_copy_props env else r_ff_filter_frame env,
     w\<lparr>ctx_stack := stack_after_pop (r_cuCtxPopCurrent env)
                      (stack_after_push (r_cuCtxPushCurrent env) (cuda_ctx fc) (ctx_stack w)),
       gpu_mem := operator_mem dg env s inp (av_hwframe_get_buffer env (blank_frame a)) (gpu_mem w),
       trace := trace w @
         [Ev_av_frame_alloc (Some a), Ev_cuCtxPushCurrent (cuda_ctx fc) (r_cuCtxPushCurrent env)] @
         cu_log (r_cuCtxPushCurrent env) @
         [Ev_av_hwframe_get_buffer a (r_av_hwframe_get_buffer env)] @
         operator_events dg env s fc inp (av_hwframe_get_buffer env (blank_frame a)) @
         [Ev_cuCtxPopCurrent (r_cuCtxPopCurrent env)] @
         cu_log (r_cuCtxPopCurrent env) @
         [Ev_av_frame_copy_props a (frame_ref inp) (r_av_frame_copy_props env),
          Ev_av_frame_free (frame_ref inp),
          if r_av_frame_copy_props env < 0 then Ev_av_frame_free a
          else Ev_ff_filter_frame
                 ((av_hwframe_get_buffer env (blank_frame a))\<lparr>props := props inp\<rparr>)]\<rparr>)"
proof -
  have fr: "frame_ref (av_hwframe_get_buffer env (blank_frame a)) = a"
    by (simp add: av_hwframe_get_buffer_def blank_frame_def)
  show ?thesis
  proof (cases "flags (dg (in_fmt s)) AND AV_PIX_FMT_FLAG_RGB \<noteq> 0")
    case True
    with assms fr show ?thesis
      by (simp add: filter_frame_def filter_frame_fail_def av_frame_free_def emit_def push_eq
          pop_eq Let_def stack_after_push_def stack_after_pop_def CK_wrap_in_eq CK_wrap_out_eq
          CK_submit_eq operator_events_def operator_mem_def tensor_of_def
          av_frame_copy_props_def)
  next
    case False
    with assms fr show ?thesis
      by (simp add: filter_frame_def filter_frame_fail_def av_frame_free_def emit_def push_eq
          pop_eq Let_def stack_after_push_def stack_after_pop_def operator_events_def
          operator_mem_def av_frame_copy_props_def)
  qed
qed

lemma format_is_supported_loop_mem:
  "format_is_supported_loop fs fmt = (if fmt \<in> set fs then 1 else 0)"
  by (induction fs) auto

lemma format_is_supported_iff:
  "format_is_supported fmt = (if fmt \<in> set supported_formats then 1 else 0)"
  by (simp add: format_is_supported_def format_is_supported_loop_mem)

lemma CK_create_eq:
  "CK_NVCV r (\<lambda>c. cvcudaFlipCreate h) (s, w) =
     (if ck_done r then s\<lparr>flip_handle := h\<rparr> else s,
      w\<lparr>trace := trace w @ ck_events r Ev_cvcudaFlipCreate\<rparr>)"
  by (simp add: CK_NVCV_def cvcudaFlipCreate_def emit_def ck_events_def ck_done_def Let_def)

lemma CK_layout_eq:
  "CK_NVCV r (\<lambda>c. nvcvTensorLayoutMake descr) (s, w) =
     (if ck_done r then s\<lparr>cv_layout := TensorLayout descr\<rparr> else s,
      w\<lparr>trace := trace w @ ck_events r (Ev_nvcvTensorLayoutMake descr)\<rparr>)"
  by (simp add: CK_NVCV_def nvcvTensorLayoutMake_def emit_def ck_events_def ck_done_def Let_def)

lemma config_props_alloc_fail:
  assumes "\<not> r_av_hwframe_ctx_alloc env"
  shows "config_props env s c w =
    \<lparr>cr_ret = AVERROR ENOMEM, cr_priv = s, cr_outlink_hw_frames_ctx = None,
     cr_world = w\<lparr>ctx_stack := stack_after_push (r_cuCtxPushCurrent env) (cuda_ctx c) (ctx_stack w),
                  trace := trace w @ [Ev_cuCtxPushCurrent (cuda_ctx c) (r_cuCtxPushCurrent env)] @
                    cu_log (r_cuCtxPushCurrent env) @ [Ev_av_hwframe_ctx_alloc False]\<rparr>\<rparr>"
  using assms by (simp add: config_props_def Let_def push_eq emit_def stack_after_push_def)

lemma config_props_unsupported:
  assumes "r_av_hwframe_ctx_alloc env" "sw_format c \<notin> set supported_formats"
  shows "config_props env s c w =
    \<lparr>cr_ret = AVERROR ENOSYS, cr_priv = s\<lparr>in_fmt := sw_format c, out_fmt := sw_format c\<rparr>,
     cr_outlink_hw_frames_ctx = None,
     cr_world = w\<lparr>ctx_stack := stack_after_push (r_cuCtxPushCurrent env) (cuda_ctx c) (ctx_stack w),
                  trace := trace w @ [Ev_cuCtxPushCurrent (cuda_ctx c) (r_cuCtxPushCurrent env)] @
                    cu_log (r_cuCtxPushCurrent env) @
                    [Ev_av_hwframe_ctx_alloc True, Ev_av_log ''Unsupported input format'' 0]\<rparr>\<rparr>"
  using assms
  by (simp add: config_props_def Let_def push_eq emit_def stack_after_push_def
      format_is_supported_iff)

lemma config_props_init_fail:
  assumes "r_av_hwframe_ctx_alloc env" "sw_format c \<in> set supported_formats"
    "r_av_hwframe_ctx_init env < 0"
  shows "cr_ret (config_props env s c w) = r_av_hwframe_ctx_init env"
    and "ctx_stack (cr_world (config_props env s c w)) =
           stack_after_push (r_cuCtxPushCurrent env) (cuda_ctx c) (ctx_stack w)"
    and "trace (cr_world (config_props env s c w)) =
           trace w @ [Ev_cuCtxPushCurrent (cuda_ctx c) (r_cuCtxPushCurrent env)] @
             cu_log (r_cuCtxPushCurrent env) @
             [Ev_av_hwframe_ctx_alloc True, Ev_av_hwframe_ctx_init (r_av_hwframe_ctx_init env),
              Ev_av_buffer_unref]"
  using assms
  by (simp_all add: config_props_def Let_def push_eq emit_def stack_after_push_def
      format_is_supported_iff)

lemma config_props_ref_fail:
  assumes "r_av_hwframe_ctx_alloc env" "sw_format c \<in> set supported_formats"
    "0 \<le> r_av_hwframe_ctx_init env" "\<not> r_av_buffer_ref env"
  shows "cr_ret (config_props env s c w) = AVERROR ENOMEM"
    and "ctx_stack (cr_world (config_props env s c w)) =
           stack_after_push (r_cuCtxPushCurrent env) (cuda_ctx c) (ctx_stack w)"
    and "trace (cr_world (config_props env s c w)) =
           trace w @ [Ev_cuCtxPushCurrent (cuda_ctx c) (r_cuCtxPushCurrent env)] @
             cu_log (r_cuCtxPushCurrent env) @
             [Ev_av_hwframe_ctx_alloc True, Ev_av_hwframe_ctx_init (r_av_hwframe_ctx_init env),
              Ev_av_buffer_ref False]"
  using assms
  by (simp_all add: config_props_def Let_def push_eq emit_def stack_after_push_def
      format_is_supported_iff)

lemma config_props_ok:
  assumes "r_av_hwframe_ctx_alloc env" "sw_format c \<in> set supported_formats"
    "0 \<le> r_av_hwframe_ctx_init env" "r_av_buffer_ref env"
  shows "config_props env s c w =
    \<lparr>cr_ret = 0, cr_priv = configured_priv env s c,
     cr_outlink_hw_frames_ctx = Some (derived_ctx c),
     cr_world = w\<lparr>ctx_stack := stack_after_pop (r_cuCtxPopCurrent env)
                    (stack_after_push (r_cuCtxPushCurrent env) (cuda_ctx c) (ctx_stack w)),
                  trace := trace w @ [Ev_cuCtxPushCurrent (cuda_ctx c) (r_cuCtxPushCurrent env)] @
                    cu_log (r_cuCtxPushCurrent env) @
                    [Ev_av_hwframe_ctx_alloc True,
                     Ev_av_hwframe_ctx_init (r_av_hwframe_ctx_init env),
                     Ev_av_buffer_ref True, Ev_cuCtxPopCurrent (r_cuCtxPopCurrent env)] @
                    cu_log (r_cuCtxPopCurrent env) @
                    ck_events (r_cvcudaFlipCreate env) Ev_cvcudaFlipCreate @
                    ck_events (r_nvcvTensorLayoutMake env) (Ev_nvcvTensorLayoutMake ''NHWC'')\<rparr>\<rparr>"
  using assms
  by (simp add: config_props_def Let_def push_eq pop_eq emit_def stack_after_push_def
      stack_after_pop_def format_is_supported_iff CK_create_eq CK_layout_eq
      configured_priv_def derived_ctx_def)

lemma AVERROR_neg: "AVERROR ENOMEM < 0" "AVERROR ENOSYS < 0"
  by (simp_all add: AVERROR_def ENOMEM_def ENOSYS_def)

lemma config_props_ret_nonneg:
  "0 \<le> cr_ret (config_props env s c w) \<longleftrightarrow>
     r_av_hwframe_ctx_alloc env \<and> sw_format c \<in> set supported_formats \<and>
     0 \<le> r_av_hwframe_ctx_init env \<and> r_av_buffer_ref env"
proof (cases "r_av_hwframe_ctx_alloc env")
  case False
  then show ?thesis using AVERROR_neg by (simp add: config_props_alloc_fail)
next
  case a: True
  show ?thesis
  proof (cases "sw_format c \<in> set supported_formats")
    case False
    with a show ?thesis using AVERROR_neg by (simp add: config_props_unsupported)
  next
    case f: True
    show ?thesis
    proof (cases "0 \<le> r_av_hwframe_ctx_init env")
      case False
      with a f show ?thesis by (simp add: config_props_init_fail(1))
    next
      case i: True
      show ?thesis
      proof (cases "r_av_buffer_ref env")
        case False
        with a f i show ?thesis using AVERROR_neg by (simp add: config_props_ref_fail(1))
      next
        case True
        with a f i show ?thesis by (simp add: config_props_ok)
      qed
    qed
  qed
qed

lemma events_since_append: "trace w' = trace w @ evs \<Longrightarrow> events_since w w' = evs"
  by (simp add: events_since_def)

lemma filter_cu_log: "filter is_gpu_work (cu_log r) = []"
  by (simp add: cu_log_def)

section \<open>Configuration\<close>

text \<open>
  C4. For every supported input pixel format, a successful \<^verbatim>\<open>config_props\<close> leaves on the
  output link a hardware-frame context with the width, the height and the software pixel
  format of the input link's context. A configuration that returns without error has
  passed the format check, so its input format is a supported one; the context is also the
  one the filter keeps for its frame pool.
\<close>

theorem C4_config_props_output_context:
  assumes "0 \<le> cr_ret (config_props env s in_frame_ctx w)"
  shows "\<exists>out_ctx.
           cr_outlink_hw_frames_ctx (config_props env s in_frame_ctx w) = Some out_ctx \<and>
           hw_frames_ctx (cr_priv (config_props env s in_frame_ctx w)) = Some out_ctx \<and>
           width out_ctx = width in_frame_ctx \<and>
           height out_ctx = height in_frame_ctx \<and>
           sw_format out_ctx = sw_format in_frame_ctx \<and>
           format out_ctx = AV_PIX_FMT_CUDA \<and>
           sw_format in_frame_ctx \<in> set supported_formats"
proof -
  from assms have ok: "r_av_hwframe_ctx_alloc env" "sw_format in_frame_ctx \<in> set supported_formats"
    "0 \<le> r_av_hwframe_ctx_init env" "r_av_buffer_ref env"
    by (simp_all add: config_props_ret_nonneg)
  then show ?thesis
    by (simp add: config_props_ok configured_priv_def derived_ctx_def)
qed

theorem C4_witness:
  "0 \<le> cr_ret (config_props ok_env fresh_priv rgb_frames_ctx empty_world) \<and>
   (\<exists>out_ctx.
      cr_outlink_hw_frames_ctx (config_props ok_env fresh_priv rgb_frames_ctx empty_world) =
        Some out_ctx \<and>
      width out_ctx = 4 \<and> height out_ctx = 2 \<and> sw_format out_ctx = AV_PIX_FMT_RGB24)"
proof -
  have h: "0 \<le> cr_ret (config_props ok_env fresh_priv rgb_frames_ctx empty_world)"
    by (simp add: config_props_ret_nonneg ok_env_def rgb_frames_ctx_def supported_formats_def)
  from C4_config_props_output_context [OF h] h show ?thesis
    by (auto simp: rgb_frames_ctx_def)
qed

text \<open>
  The format check is not the first exit of \<^verbatim>\<open>config_props\<close>: the output context is
  allocated before it, and \<^verbatim>\<open>if (!out_ref) return AVERROR(ENOMEM);\<close> comes first. With a
  planar YUV input and a failing allocation the function returns the out-of-memory error,
  not the unsupported-format one.
\<close>

theorem C3_counterexample:
  "AV_PIX_FMT_YUV420P \<notin> set supported_formats \<and>
   sw_format yuv_frames_ctx = AV_PIX_FMT_YUV420P \<and>
   cr_ret (config_props (ok_env\<lparr>r_av_hwframe_ctx_alloc := False\<rparr>) fresh_priv yuv_frames_ctx
             empty_world) = AVERROR ENOMEM \<and>
   AVERROR ENOMEM \<noteq> AVERROR ENOSYS"
  by (simp add: config_props_alloc_fail supported_formats_def yuv_frames_ctx_def
      rgb_frames_ctx_def AVERROR_def ENOMEM_def ENOSYS_def)

text \<open>
  C3, amended. For every input software pixel format outside the supported set (RGB24,
  BGR24, 0RGB32, 0BGR32, RGBA, BGRA), \<^verbatim>\<open>config_props\<close> fails: with the unsupported-format
  error \<^verbatim>\<open>AVERROR(ENOSYS)\<close> when the output hardware-frame context could be allocated, with
  \<^verbatim>\<open>AVERROR(ENOMEM)\<close> when that allocation failed. Either way the output link gets no
  context, no operator is created, no tensor is wrapped, no operation is submitted, no
  output frame is allocated, and the GPU memory and the operator handle are as before.
\<close>

theorem C3_config_props_unsupported_format:
  assumes "sw_format c \<notin> set supported_formats"
  shows "cr_ret (config_props env s c w) =
           (if r_av_hwframe_ctx_alloc env then AVERROR ENOSYS else AVERROR ENOMEM) \<and>
         cr_ret (config_props env s c w) < 0 \<and>
         cr_outlink_hw_frames_ctx (config_props env s c w) = None \<and>
         filter is_gpu_work (events_since w (cr_world (config_props env s c w))) = [] \<and>
         gpu_mem (cr_world (config_props env s c w)) = gpu_mem w \<and>
         flip_handle (cr_priv (config_props env s c w)) = flip_handle s"
proof (cases "r_av_hwframe_ctx_alloc env")
  case True
  with assms show ?thesis
    by (simp add: config_props_unsupported events_since_def filter_cu_log AVERROR_neg)
next
  case False
  then show ?thesis
    by (simp add: config_props_alloc_fail events_since_def filter_cu_log AVERROR_neg)
qed

theorem C3_witness:
  "sw_format yuv_frames_ctx \<notin> set supported_formats \<and>
   cr_ret (config_props ok_env fresh_priv yuv_frames_ctx empty_world) = - 38 \<and>
   cr_outlink_hw_frames_ctx (config_props ok_env fresh_priv yuv_frames_ctx empty_world) = None \<and>
   filter is_gpu_work
     (events_since empty_world
        (cr_world (config_props ok_env fresh_priv yuv_frames_ctx empty_world))) = []"
proof -
  have h: "sw_format yuv_frames_ctx \<notin> set supported_formats"
    by (simp add: yuv_frames_ctx_def rgb_frames_ctx_def supported_formats_def)
  from C3_config_props_unsupported_format [OF h, of ok_env fresh_priv empty_world] h
  show ?thesis
    by (simp add: ok_env_def AVERROR_def ENOSYS_def)
qed

section \<open>The CUDA context stack\<close>

text \<open>
  C2. Every context push of \<^verbatim>\<open>config_props\<close> and \<^verbatim>\<open>filter_frame\<close> ought to be matched by
  a pop on every exit path. The code pops on the paths that run to the end only: each
  early \<^verbatim>\<open>return\<close> of \<^verbatim>\<open>config_props\<close> after the push, and the \<^verbatim>\<open>goto fail\<close> after a failed
  \<^verbatim>\<open>av_hwframe_get_buffer\<close> in \<^verbatim>\<open>filter_frame\<close>, leave the pushed context on the stack.
  Evaluated here: a configuration on a planar YUV input, and a frame whose buffer
  allocation fails, each starting from an empty stack and ending with context 1 on it.
\<close>

theorem C2_context_left_pushed_on_error_paths:
  "ctx_stack empty_world = [] \<and>
   cr_ret (config_props ok_env fresh_priv yuv_frames_ctx empty_world) = AVERROR ENOSYS \<and>
   ctx_stack (cr_world (config_props ok_env fresh_priv yuv_frames_ctx empty_world)) = [1] \<and>
   fst (filter_frame sample_desc_get (ok_env\<lparr>r_av_hwframe_get_buffer := - 12\<rparr>) rgb_priv
          rgb_frames_ctx sample_frame empty_world) = - 12 \<and>
   ctx_stack (snd (filter_frame sample_desc_get (ok_env\<lparr>r_av_hwframe_get_buffer := - 12\<rparr>)
                     rgb_priv rgb_frames_ctx sample_frame empty_world)) = [1]"
proof -
  have a: "r_av_hwframe_ctx_alloc ok_env" "r_cuCtxPushCurrent ok_env = CUDA_SUCCESS"
    "r_av_frame_alloc (ok_env\<lparr>r_av_hwframe_get_buffer := - 12\<rparr>) = Some 200"
    "r_av_hwframe_get_buffer (ok_env\<lparr>r_av_hwframe_get_buffer := - 12\<rparr>) = - 12"
    "r_cuCtxPushCurrent (ok_env\<lparr>r_av_hwframe_get_buffer := - 12\<rparr>) = CUDA_SUCCESS"
    by (simp_all add: ok_env_def CUDA_SUCCESS_def)
  have b: "sw_format yuv_frames_ctx \<notin> set supported_formats"
    by (simp add: yuv_frames_ctx_def rgb_frames_ctx_def supported_formats_def)
  have c: "cuda_ctx yuv_frames_ctx = 1" "cuda_ctx rgb_frames_ctx = 1" "ctx_stack empty_world = []"
    by (simp_all add: yuv_frames_ctx_def rgb_frames_ctx_def empty_world_def)
  show ?thesis
    using a b c
    by (simp add: config_props_unsupported filter_frame_get_buffer_fail stack_after_push_def)
qed

text \<open>
  The whole picture, the driver calls themselves succeeding: \<^verbatim>\<open>config_props\<close> leaves the
  stack as it found it exactly when it returns without error, and \<^verbatim>\<open>filter_frame\<close> leaves
  the context pushed exactly when the buffer allocation fails.
\<close>

lemma config_props_context_stack:
  assumes "r_cuCtxPushCurrent env = CUDA_SUCCESS" "r_cuCtxPopCurrent env = CUDA_SUCCESS"
  shows "ctx_stack (cr_world (config_props env s c w)) =
           (if 0 \<le> cr_ret (config_props env s c w) then ctx_stack w
            else cuda_ctx c # ctx_stack w)"
proof (cases "r_av_hwframe_ctx_alloc env")
  case False
  with assms show ?thesis
    using AVERROR_neg by (simp add: config_props_alloc_fail stack_after_push_def)
next
  case a: True
  show ?thesis
  proof (cases "sw_format c \<in> set supported_formats")
    case False
    with a assms show ?thesis
      using AVERROR_neg by (simp add: config_props_unsupported stack_after_push_def)
  next
    case f: True
    show ?thesis
    proof (cases "0 \<le> r_av_hwframe_ctx_init env")
      case False
      with a f assms show ?thesis
        by (simp add: config_props_init_fail stack_after_push_def)
    next
      case i: True
      show ?thesis
      proof (cases "r_av_buffer_ref env")
        case False
        with a f i assms show ?thesis
          using AVERROR_neg by (simp add: config_props_ref_fail stack_after_push_def)
      next
        case True
        with a f i assms show ?thesis
          by (simp add: config_props_ok stack_after_push_def stack_after_pop_def)
      qed
    qed
  qed
qed

lemma filter_frame_context_stack:
  assumes "r_cuCtxPushCurrent env = CUDA_SUCCESS" "r_cuCtxPopCurrent env = CUDA_SUCCESS"
  shows "ctx_stack (snd (filter_frame dg env s fc inp w)) =
           (if r_av_frame_alloc env \<noteq> None \<and> r_av_hwframe_get_buffer env < 0
            then cuda_ctx fc # ctx_stack w else ctx_stack w)"
proof (cases "r_av_frame_alloc env")
  case None
  then show ?thesis by (simp add: filter_frame_alloc_fail)
next
  case (Some a)
  show ?thesis
  proof (cases "r_av_hwframe_get_buffer env < 0")
    case True
    with Some assms show ?thesis
      by (simp add: filter_frame_get_buffer_fail stack_after_push_def)
  next
    case False
    then have "0 \<le> r_av_hwframe_get_buffer env" by simp
    from filter_frame_buffer_ok [OF Some this] assms False show ?thesis
      by (simp add: stack_after_push_def stack_after_pop_def)
  qed
qed

lemma freed_append: "freed (xs @ ys) = freed xs @ freed ys"
  by (induction xs rule: freed.induct) simp_all

lemma forwarded_append: "forwarded (xs @ ys) = forwarded xs @ forwarded ys"
  by (induction xs rule: forwarded.induct) simp_all

lemma create_calls_append: "create_calls (xs @ ys) = create_calls xs @ create_calls ys"
  by (induction xs rule: create_calls.induct) simp_all

lemma destroy_calls_append: "destroy_calls (xs @ ys) = destroy_calls xs @ destroy_calls ys"
  by (induction xs rule: destroy_calls.induct) simp_all

lemma cu_log_quiet:
  "freed (cu_log r) = []" "forwarded (cu_log r) = []" "create_calls (cu_log r) = []"
  "destroy_calls (cu_log r) = []" "filter is_operator_call (cu_log r) = []"
  by (simp_all add: cu_log_def)

lemma operator_events_quiet:
  "freed (operator_events dg env s fc inp out) = []"
  "forwarded (operator_events dg env s fc inp out) = []"
  "create_calls (operator_events dg env s fc inp out) = []"
  "destroy_calls (operator_events dg env s fc inp out) = []"
  by (simp_all add: operator_events_def ck_events_def)

lemma operator_events_no_rgb:
  "flags (dg (in_fmt s)) AND AV_PIX_FMT_FLAG_RGB = 0 \<Longrightarrow> operator_events dg env s fc inp out = []"
  "flags (dg (in_fmt s)) AND AV_PIX_FMT_FLAG_RGB = 0 \<Longrightarrow> operator_mem dg env s inp out m = m"
  by (simp_all add: operator_events_def operator_mem_def)

lemmas trace_homs = freed_append forwarded_append create_calls_append destroy_calls_append
  cu_log_quiet operator_events_quiet

section \<open>The per-frame path: errors\<close>

text \<open>
  What \<^verbatim>\<open>filter_frame\<close> does once the output frame and its buffer are allocated, by the
  result of the metadata copy: a failing copy frees both frames, forwards nothing and
  returns its error; otherwise the input frame alone is freed, the output frame is
  forwarded and the result of \<^verbatim>\<open>ff_filter_frame\<close> is returned, whatever the operator calls
  reported.
\<close>

lemma filter_frame_exits_after_allocation:
  fixes dg env s fc inp w
  defines "R \<equiv> filter_frame dg env s fc inp w"
    and "E \<equiv> events_since w (snd (filter_frame dg env s fc inp w))"
  assumes "r_av_frame_alloc env = Some a" "0 \<le> r_av_hwframe_get_buffer env"
  shows "(r_av_frame_copy_props env < 0 \<longrightarrow>
            fst R = r_av_frame_copy_props env \<and> freed E = [frame_ref inp, a] \<and>
            forwarded E = []) \<and>
         (0 \<le> r_av_frame_copy_props env \<longrightarrow>
            fst R = r_ff_filter_frame env \<and> freed E = [frame_ref inp] \<and>
            map frame_ref (forwarded E) = [a])"
  unfolding R_def E_def
  by (simp add: filter_frame_buffer_ok [OF assms(3,4)] events_since_def trace_homs
      av_hwframe_get_buffer_def blank_frame_def)

lemma ck_events_logs:
  "fst r \<noteq> NVCV_SUCCESS \<Longrightarrow> Ev_av_log ''NVCV error'' (snd r) \<in> set (ck_events r ev)"
  by (simp add: ck_events_def)

text \<open>
  C1. Any failure of the tensor construction, of the submission or of the metadata copy
  ought to release both frames and be returned. The metadata copy is handled so, as the
  buffer allocation is: their results are tested and control goes to \<^verbatim>\<open>fail\<close>. The statuses of
  the operator calls are assigned to \<^verbatim>\<open>ret\<close> inside \<^verbatim>\<open>CK_NVCV\<close> and never tested; the next
  assignment to \<^verbatim>\<open>ret\<close> overwrites them. Evaluated here: a frame for which the construction
  of the input tensor fails with status 2 and the submission with status 3, every other
  call succeeding. Both failures are logged, \<^verbatim>\<open>filter_frame\<close> returns 0, frees the input
  frame (100) only and forwards the output frame (200).
\<close>

theorem C1_operator_failures_not_propagated:
  "fst (r_wrap_in (ok_env\<lparr>r_wrap_in := (2, 2), r_cvcudaFlipSubmit := (3, 3)\<rparr>)) \<noteq> NVCV_SUCCESS \<and>
   fst (r_cvcudaFlipSubmit (ok_env\<lparr>r_wrap_in := (2, 2), r_cvcudaFlipSubmit := (3, 3)\<rparr>)) \<noteq> NVCV_SUCCESS \<and>
   flags (sample_desc_get (in_fmt rgb_priv)) AND AV_PIX_FMT_FLAG_RGB \<noteq> 0 \<and>
   fst (filter_frame sample_desc_get (ok_env\<lparr>r_wrap_in := (2, 2), r_cvcudaFlipSubmit := (3, 3)\<rparr>)
          rgb_priv rgb_frames_ctx sample_frame sample_world) = 0 \<and>
   freed (events_since sample_world
            (snd (filter_frame sample_desc_get
                    (ok_env\<lparr>r_wrap_in := (2, 2), r_cvcudaFlipSubmit := (3, 3)\<rparr>)
                    rgb_priv rgb_frames_ctx sample_frame sample_world))) = [100] \<and>
   map frame_ref
     (forwarded (events_since sample_world
            (snd (filter_frame sample_desc_get
                    (ok_env\<lparr>r_wrap_in := (2, 2), r_cvcudaFlipSubmit := (3, 3)\<rparr>)
                    rgb_priv rgb_frames_ctx sample_frame sample_world)))) = [200] \<and>
   Ev_av_log ''NVCV error'' 2 \<in>
     set (events_since sample_world
            (snd (filter_frame sample_desc_get
                    (ok_env\<lparr>r_wrap_in := (2, 2), r_cvcudaFlipSubmit := (3, 3)\<rparr>)
                    rgb_priv rgb_frames_ctx sample_frame sample_world))) \<and>
   Ev_av_log ''NVCV error'' 3 \<in>
     set (events_since sample_world
            (snd (filter_frame sample_desc_get
                    (ok_env\<lparr>r_wrap_in := (2, 2), r_cvcudaFlipSubmit := (3, 3)\<rparr>)
                    rgb_priv rgb_frames_ctx sample_frame sample_world)))"
proof -
  let ?env = "ok_env\<lparr>r_wrap_in := (2, 2), r_cvcudaFlipSubmit := (3, 3)\<rparr>"
  let ?E = "events_since sample_world
              (snd (filter_frame sample_desc_get ?env rgb_priv rgb_frames_ctx sample_frame
                      sample_world))"
  have a: "r_av_frame_alloc ?env = Some 200" "0 \<le> r_av_hwframe_get_buffer ?env"
    by (simp_all add: ok_env_def)
  have b: "r_av_frame_copy_props ?env = 0" "r_ff_filter_frame ?env = 0"
    "frame_ref sample_frame = 100"
    by (simp_all add: ok_env_def sample_frame_def)
  have c: "flags (sample_desc_get (in_fmt rgb_priv)) AND AV_PIX_FMT_FLAG_RGB \<noteq> 0"
    by (simp add: rgb_priv_def AV_PIX_FMT_FLAG_RGB_def)
  have st: "fst (r_wrap_in ?env) \<noteq> NVCV_SUCCESS" "fst (r_cvcudaFlipSubmit ?env) \<noteq> NVCV_SUCCESS"
    "snd (r_wrap_in ?env) = 2" "snd (r_cvcudaFlipSubmit ?env) = 3"
    by (simp_all add: NVCV_SUCCESS_def)
  have ret: "fst (filter_frame sample_desc_get ?env rgb_priv rgb_frames_ctx sample_frame
                    sample_world) = 0"
    using b by (simp add: filter_frame_buffer_ok [OF a])
  have fr: "freed ?E = [100]" "map frame_ref (forwarded ?E) = [200]"
    using b
    by (simp_all add: filter_frame_buffer_ok [OF a] events_since_def trace_homs
        av_hwframe_get_buffer_def blank_frame_def)
  have logs: "Ev_av_log ''NVCV error'' 2 \<in> set ?E" "Ev_av_log ''NVCV error'' 3 \<in> set ?E"
    using c ck_events_logs [OF st(1)] ck_events_logs [OF st(2)]
    by (simp_all add: filter_frame_buffer_ok [OF a] events_since_def operator_events_def st(3,4))
  from st(1,2) c ret fr logs show ?thesis by (intro conjI)
qed

lemma filter_frame_ret_independent:
  "fst (filter_frame dg (env\<lparr>r_wrap_in := x, r_wrap_out := y, r_cvcudaFlipSubmit := z\<rparr>) s fc inp w) =
   fst (filter_frame dg env s fc inp w)"
  by (simp add: filter_frame_def Let_def filter_frame_fail_def split: option.splits)

text \<open>
  C5. In the per-frame path the statuses of \<^verbatim>\<open>nvcvTensorWrapDataConstruct\<close> and
  \<^verbatim>\<open>cvcudaFlipSubmit\<close> are logged and nothing else. When the frame allocation, the buffer
  allocation and the metadata copy succeed, \<^verbatim>\<open>filter_frame\<close> returns the result of
  \<^verbatim>\<open>ff_filter_frame\<close> and forwards the output frame; its return value is the same for all
  statuses \<open>x\<close>, \<open>y\<close>, \<open>z\<close> of the three operator calls; and each of these calls that
  reports a failure leaves an error entry in the log.
\<close>

theorem C5_operator_errors_only_logged:
  fixes dg env s fc inp w
  defines "R \<equiv> filter_frame dg env s fc inp w"
    and "E \<equiv> events_since w (snd (filter_frame dg env s fc inp w))"
  assumes "r_av_frame_alloc env = Some a" "0 \<le> r_av_hwframe_get_buffer env"
    "0 \<le> r_av_frame_copy_props env"
  shows "fst R = r_ff_filter_frame env \<and>
         fst (filter_frame dg (env\<lparr>r_wrap_in := x, r_wrap_out := y, r_cvcudaFlipSubmit := z\<rparr>)
                s fc inp w) = fst R \<and>
         map frame_ref (forwarded E) = [a] \<and>
         (flags (dg (in_fmt s)) AND AV_PIX_FMT_FLAG_RGB \<noteq> 0 \<longrightarrow>
            (fst (r_wrap_in env) \<noteq> NVCV_SUCCESS \<longrightarrow>
               Ev_av_log ''NVCV error'' (snd (r_wrap_in env)) \<in> set E) \<and>
            (fst (r_wrap_out env) \<noteq> NVCV_SUCCESS \<longrightarrow>
               Ev_av_log ''NVCV error'' (snd (r_wrap_out env)) \<in> set E) \<and>
            (fst (r_cvcudaFlipSubmit env) \<noteq> NVCV_SUCCESS \<longrightarrow>
               Ev_av_log ''NVCV error'' (snd (r_cvcudaFlipSubmit env)) \<in> set E))"
proof -
  have ret: "fst R = r_ff_filter_frame env"
    unfolding R_def using assms(5) by (simp add: filter_frame_buffer_ok [OF assms(3,4)])
  have fwd: "map frame_ref (forwarded E) = [a]"
    unfolding E_def using assms(5)
    by (simp add: filter_frame_buffer_ok [OF assms(3,4)] events_since_def trace_homs
        av_hwframe_get_buffer_def blank_frame_def)
  have logs: "flags (dg (in_fmt s)) AND AV_PIX_FMT_FLAG_RGB \<noteq> 0 \<Longrightarrow> fst r \<noteq> NVCV_SUCCESS \<Longrightarrow>
      r = r_wrap_in env \<or> r = r_wrap_out env \<or> r = r_cvcudaFlipSubmit env \<Longrightarrow>
      Ev_av_log ''NVCV error'' (snd r) \<in> set E" for r
    unfolding E_def
    by (auto simp: filter_frame_buffer_ok [OF assms(3,4)] events_since_def operator_events_def
        ck_events_logs)
  show ?thesis
    using ret fwd logs unfolding R_def by (simp add: filter_frame_ret_independent)
qed

theorem C5_witness:
  "r_av_frame_alloc (ok_env\<lparr>r_cvcudaFlipSubmit := (3, 4), r_ff_filter_frame := 5\<rparr>) = Some 200 \<and>
   fst (r_cvcudaFlipSubmit (ok_env\<lparr>r_cvcudaFlipSubmit := (3, 4), r_ff_filter_frame := 5\<rparr>)) \<noteq>
     NVCV_SUCCESS \<and>
   fst (filter_frame sample_desc_get (ok_env\<lparr>r_cvcudaFlipSubmit := (3, 4), r_ff_filter_frame := 5\<rparr>)
          rgb_priv rgb_frames_ctx sample_frame sample_world) = 5 \<and>
   Ev_av_log ''NVCV error'' 4 \<in>
     set (events_since sample_world
            (snd (filter_frame sample_desc_get
                    (ok_env\<lparr>r_cvcudaFlipSubmit := (3, 4), r_ff_filter_frame := 5\<rparr>)
                    rgb_priv rgb_frames_ctx sample_frame sample_world)))"
proof -
  have a: "r_av_frame_alloc (ok_env\<lparr>r_cvcudaFlipSubmit := (3, 4), r_ff_filter_frame := 5\<rparr>) = Some 200"
    "0 \<le> r_av_hwframe_get_buffer (ok_env\<lparr>r_cvcudaFlipSubmit := (3, 4), r_ff_filter_frame := 5\<rparr>)"
    "0 \<le> r_av_frame_copy_props (ok_env\<lparr>r_cvcudaFlipSubmit := (3, 4), r_ff_filter_frame := 5\<rparr>)"
    by (simp_all add: ok_env_def)
  have c: "flags (sample_desc_get (in_fmt rgb_priv)) AND AV_PIX_FMT_FLAG_RGB \<noteq> 0"
    by (simp add: rgb_priv_def AV_PIX_FMT_FLAG_RGB_def)
  from C5_operator_errors_only_logged [OF a, where dg = sample_desc_get and s = rgb_priv and fc = rgb_frames_ctx
      and inp = sample_frame and w = sample_world] a c
  show ?thesis by (simp add: NVCV_SUCCESS_def)
qed

section \<open>The per-frame path: frames and tensors\<close>

text \<open>
  C8. For every frame that \<^verbatim>\<open>filter_frame\<close> processes to the end, the calls it makes end
  with the metadata copy, the release of the input frame and the forwarding of the output
  frame, in this order, no frame being released or forwarded before; and the forwarded
  frame carries the metadata of the input frame, timestamps and side data included.
\<close>

theorem C8_output_metadata_matches_input:
  fixes dg env s fc inp w
  defines "E \<equiv> events_since w (snd (filter_frame dg env s fc inp w))"
  assumes "r_av_frame_alloc env = Some a" "0 \<le> r_av_hwframe_get_buffer env"
    "0 \<le> r_av_frame_copy_props env"
  shows "\<exists>pre out.
           E = pre @ [Ev_av_frame_copy_props a (frame_ref inp) (r_av_frame_copy_props env),
                      Ev_av_frame_free (frame_ref inp), Ev_ff_filter_frame out] \<and>
           freed pre = [] \<and> forwarded pre = [] \<and>
           frame_ref out = a \<and> props out = props inp \<and>
           pts (props out) = pts (props inp) \<and>
           side_data (props out) = side_data (props inp)"
proof -
  let ?out = "(av_hwframe_get_buffer env (blank_frame a))\<lparr>props := props inp\<rparr>"
  let ?pre = "[Ev_av_frame_alloc (Some a), Ev_cuCtxPushCurrent (cuda_ctx fc) (r_cuCtxPushCurrent env)] @
         cu_log (r_cuCtxPushCurrent env) @
         [Ev_av_hwframe_get_buffer a (r_av_hwframe_get_buffer env)] @
         operator_events dg env s fc inp (av_hwframe_get_buffer env (blank_frame a)) @
         [Ev_cuCtxPopCurrent (r_cuCtxPopCurrent env)] @
         cu_log (r_cuCtxPopCurrent env)"
  have "E = ?pre @ [Ev_av_frame_copy_props a (frame_ref inp) (r_av_frame_copy_props env),
                      Ev_av_frame_free (frame_ref inp), Ev_ff_filter_frame ?out]"
    unfolding E_def using assms(4)
    by (simp add: filter_frame_buffer_ok [OF assms(2,3)] events_since_def)
  moreover have "freed ?pre = []" "forwarded ?pre = []"
    by (simp_all add: trace_homs)
  moreover have "frame_ref ?out = a" "props ?out = props inp"
    by (simp_all add: av_hwframe_get_buffer_def blank_frame_def)
  ultimately show ?thesis by metis
qed

theorem C8_witness:
  "r_av_frame_alloc ok_env = Some 200 \<and>
   (\<exists>pre out.
      events_since sample_world
        (snd (filter_frame sample_desc_get ok_env rgb_priv rgb_frames_ctx sample_frame sample_world)) =
        pre @ [Ev_av_frame_copy_props 200 100 0, Ev_av_frame_free 100, Ev_ff_filter_frame out] \<and>
      freed pre = [] \<and> pts (props out) = 42 \<and> side_data (props out) = [(1, [1, 2, 3])])"
proof -
  have a: "r_av_frame_alloc ok_env = Some 200" "0 \<le> r_av_hwframe_get_buffer ok_env"
    "0 \<le> r_av_frame_copy_props ok_env"
    by (simp_all add: ok_env_def)
  have b: "frame_ref sample_frame = 100" "r_av_frame_copy_props ok_env = 0"
    "pts (props sample_frame) = 42" "side_data (props sample_frame) = [(1, [1, 2, 3])]"
    by (simp_all add: ok_env_def sample_frame_def)
  from C8_output_metadata_matches_input [OF a, where dg = sample_desc_get and s = rgb_priv and fc = rgb_frames_ctx
      and inp = sample_frame and w = sample_world] a(1) b
  show ?thesis by auto
qed

text \<open>
  C9. When the descriptor of the configured input format lacks the RGB flag, \<^verbatim>\<open>filter_frame\<close>
  wraps no tensor and submits nothing, on any path, and leaves the GPU memory as it was.
  When the frame allocation, the buffer allocation and the metadata copy succeed it still
  takes an output buffer from the pool, copies the metadata of the input onto the output
  frame, frees the input frame, forwards the output frame as the pool delivered it, and
  returns the result of \<^verbatim>\<open>ff_filter_frame\<close>: nothing reports that the frame was not flipped.
\<close>

theorem C9_frame_without_rgb_flag_passes_unflipped:
  fixes dg env s fc inp w
  defines "R \<equiv> filter_frame dg env s fc inp w"
    and "E \<equiv> events_since w (snd (filter_frame dg env s fc inp w))"
  assumes "flags (dg (in_fmt s)) AND AV_PIX_FMT_FLAG_RGB = 0"
  shows "filter is_operator_call E = [] \<and>
         gpu_mem (snd R) = gpu_mem w \<and>
         (\<forall>a. r_av_frame_alloc env = Some a \<and> 0 \<le> r_av_hwframe_get_buffer env \<and>
               0 \<le> r_av_frame_copy_props env \<longrightarrow>
               fst R = r_ff_filter_frame env \<and>
               Ev_av_hwframe_get_buffer a (r_av_hwframe_get_buffer env) \<in> set E \<and>
               Ev_av_frame_copy_props a (frame_ref inp) (r_av_frame_copy_props env) \<in> set E \<and>
               freed E = [frame_ref inp] \<and>
               forwarded E =
                 [\<lparr>frame_ref = a, data0 = r_pool_data0 env, linesize0 = r_pool_linesize0 env,
                   frame_width = r_pool_width env, frame_height = r_pool_height env,
                   props = props inp\<rparr>])"
proof -
  have quiet: "filter is_operator_call E = [] \<and> gpu_mem (snd R) = gpu_mem w"
  proof (cases "r_av_frame_alloc env")
    case None
    then show ?thesis
      unfolding R_def E_def by (simp add: filter_frame_alloc_fail events_since_def)
  next
    case (Some a)
    show ?thesis
    proof (cases "r_av_hwframe_get_buffer env < 0")
      case True
      with Some show ?thesis
        unfolding R_def E_def
        by (simp add: filter_frame_get_buffer_fail events_since_def cu_log_quiet)
    next
      case False
      then have "0 \<le> r_av_hwframe_get_buffer env" by simp
      from filter_frame_buffer_ok [OF Some this] assms(3) show ?thesis
        unfolding R_def E_def
        by (simp add: events_since_def cu_log_quiet operator_events_no_rgb)
    qed
  qed
  have full: "fst R = r_ff_filter_frame env \<and>
      Ev_av_hwframe_get_buffer a (r_av_hwframe_get_buffer env) \<in> set E \<and>
      Ev_av_frame_copy_props a (frame_ref inp) (r_av_frame_copy_props env) \<in> set E \<and>
      freed E = [frame_ref inp] \<and>
      forwarded E =
        [\<lparr>frame_ref = a, data0 = r_pool_data0 env, linesize0 = r_pool_linesize0 env,
          frame_width = r_pool_width env, frame_height = r_pool_height env,
          props = props inp\<rparr>]"
    if h: "r_av_frame_alloc env = Some a" "0 \<le> r_av_hwframe_get_buffer env"
      "0 \<le> r_av_frame_copy_props env" for a
    using h(2,3) assms(3) unfolding R_def E_def
    by (simp add: filter_frame_buffer_ok [OF h(1,2)] events_since_def trace_homs
        operator_events_no_rgb av_hwframe_get_buffer_def blank_frame_def)
  from quiet full show ?thesis by blast
qed

theorem C9_witness:
  "flags (sample_desc_get (in_fmt yuv_priv)) AND AV_PIX_FMT_FLAG_RGB = 0 \<and>
   r_av_frame_alloc ok_env = Some 200 \<and>
   0 \<le> r_av_hwframe_get_buffer ok_env \<and> 0 \<le> r_av_frame_copy_props ok_env \<and>
   fst (filter_frame sample_desc_get ok_env yuv_priv rgb_frames_ctx sample_frame sample_world) = 0 \<and>
   filter is_operator_call
     (events_since sample_world
        (snd (filter_frame sample_desc_get ok_env yuv_priv rgb_frames_ctx sample_frame
                sample_world))) = [] \<and>
   map frame_ref (forwarded
     (events_since sample_world
        (snd (filter_frame sample_desc_get ok_env yuv_priv rgb_frames_ctx sample_frame
                sample_world)))) = [200]"
proof -
  have f: "flags (sample_desc_get (in_fmt yuv_priv)) AND AV_PIX_FMT_FLAG_RGB = 0"
    by (simp add: yuv_priv_def AV_PIX_FMT_FLAG_RGB_def)
  have a: "r_av_frame_alloc ok_env = Some 200" "0 \<le> r_av_hwframe_get_buffer ok_env"
    "0 \<le> r_av_frame_copy_props ok_env" "r_ff_filter_frame ok_env = 0"
    by (simp_all add: ok_env_def)
  from C9_frame_without_rgb_flag_passes_unflipped [where dg = sample_desc_get and s = yuv_priv
      and env = ok_env and fc = rgb_frames_ctx and inp = sample_frame and w = sample_world] f a
  show ?thesis by simp
qed

lemma cv_data_view: "strided_view_of (cv_data f desc lay) f (comp0_step desc)"
  and cv_data_layout: "layout (cv_data f desc lay) = lay"
  by (simp_all add: strided_view_of_def cv_data_def)

lemma wrap_in_ck_events:
  "Ev_nvcvTensorWrapDataConstruct d st \<in> set (ck_events r (Ev_nvcvTensorWrapDataConstruct d')) \<Longrightarrow>
   d = d'"
  by (auto simp: ck_events_def split: if_splits)

lemma wrap_in_operator_events:
  assumes "Ev_nvcvTensorWrapDataConstruct d st \<in> set (operator_events dg env s fc inp out)"
  shows "d = cv_data inp (dg (in_fmt s)) (cv_layout s) \<or>
         d = cv_data out (dg (out_fmt s)) (cv_layout s)"
proof (cases "flags (dg (in_fmt s)) AND AV_PIX_FMT_FLAG_RGB \<noteq> 0")
  case True
  with assms have
    "Ev_nvcvTensorWrapDataConstruct d st \<in>
       set (ck_events (r_wrap_in env)
              (Ev_nvcvTensorWrapDataConstruct (cv_data inp (dg (in_fmt s)) (cv_layout s)))) \<or>
     Ev_nvcvTensorWrapDataConstruct d st \<in>
       set (ck_events (r_wrap_out env)
              (Ev_nvcvTensorWrapDataConstruct (cv_data out (dg (out_fmt s)) (cv_layout s)))) \<or>
     Ev_nvcvTensorWrapDataConstruct d st \<in>
       set (ck_events (r_cvcudaFlipSubmit env)
              (Ev_cvcudaFlipSubmit (flip_handle s) (stream fc)
                 (tensor_of (r_wrap_in env) (cv_data inp (dg (in_fmt s)) (cv_layout s)))
                 (tensor_of (r_wrap_out env) (cv_data out (dg (out_fmt s)) (cv_layout s)))
                 (flip_code s)))"
    by (simp add: operator_events_def)
  then show ?thesis
  proof (elim disjE)
    assume "Ev_nvcvTensorWrapDataConstruct d st \<in>
       set (ck_events (r_cvcudaFlipSubmit env)
              (Ev_cvcudaFlipSubmit (flip_handle s) (stream fc)
                 (tensor_of (r_wrap_in env) (cv_data inp (dg (in_fmt s)) (cv_layout s)))
                 (tensor_of (r_wrap_out env) (cv_data out (dg (out_fmt s)) (cv_layout s)))
                 (flip_code s)))"
    then show ?thesis by (simp add: ck_events_def split: if_splits)
  qed (auto dest: wrap_in_ck_events)
next
  case False
  with assms show ?thesis by (simp add: operator_events_def)
qed

lemma ck_events_first: "ev (fst r) \<in> set (ck_events r ev)"
  by (simp add: ck_events_def)

lemma wrap_not_in_cu_log: "Ev_nvcvTensorWrapDataConstruct d st \<notin> set (cu_log r)"
  by (simp add: cu_log_def)

lemma wrapped_by_filter_frame:
  assumes "Ev_nvcvTensorWrapDataConstruct d st \<in>
             set (events_since w (snd (filter_frame dg env s fc inp w)))"
  shows "d = cv_data inp (dg (in_fmt s)) (cv_layout s) \<or>
         (\<exists>a. r_av_frame_alloc env = Some a \<and>
              d = cv_data (av_hwframe_get_buffer env (blank_frame a)) (dg (out_fmt s)) (cv_layout s))"
proof (cases "r_av_frame_alloc env")
  case None
  with assms show ?thesis by (simp add: filter_frame_alloc_fail events_since_def)
next
  case (Some a)
  show ?thesis
  proof (cases "r_av_hwframe_get_buffer env < 0")
    case True
    with Some assms show ?thesis
      by (simp add: filter_frame_get_buffer_fail events_since_def wrap_not_in_cu_log)
  next
    case False
    then have ok: "0 \<le> r_av_hwframe_get_buffer env" by simp
    from assms have
      "Ev_nvcvTensorWrapDataConstruct d st \<in>
         set (operator_events dg env s fc inp (av_hwframe_get_buffer env (blank_frame a)))"
      by (simp add: filter_frame_buffer_ok [OF Some ok] events_since_def wrap_not_in_cu_log
          split: if_splits)
    from wrap_in_operator_events [OF this] Some show ?thesis by simp
  qed
qed

text \<open>
  A configuration in which \<^verbatim>\<open>nvcvTensorLayoutMake\<close> fails: \<^verbatim>\<open>CK_NVCV\<close> logs, \<^verbatim>\<open>config_props\<close>
  returns 0 and the layout member of the context stays as allocated, all zero. The next
  frame is wrapped with that layout, which is not NHWC.
\<close>

theorem C7_counterexample:
  "0 \<le> cr_ret (config_props (ok_env\<lparr>r_nvcvTensorLayoutMake := (2, 2)\<rparr>) fresh_priv
                  rgb_frames_ctx empty_world) \<and>
   Ev_nvcvTensorWrapDataConstruct
     \<lparr>dtype = NVCV_DATA_TYPE_U8, rank = 4, bufferType = NVCV_TENSOR_BUFFER_STRIDED_CUDA,
      shape = [1, 2, 4, 3], strides = [32, 16, 3, 1], basePtr = 4096,
      layout = TensorLayout []\<rparr> 0 \<in>
     set (events_since sample_world
            (snd (filter_frame sample_desc_get ok_env
                    (cr_priv (config_props (ok_env\<lparr>r_nvcvTensorLayoutMake := (2, 2)\<rparr>)
                                fresh_priv rgb_frames_ctx empty_world))
                    rgb_frames_ctx sample_frame sample_world))) \<and>
   TensorLayout [] \<noteq> TensorLayout ''NHWC''"
proof -
  let ?cenv = "ok_env\<lparr>r_nvcvTensorLayoutMake := (2, 2)\<rparr>"
  let ?s = "cr_priv (config_props ?cenv fresh_priv rgb_frames_ctx empty_world)"
  have ok: "r_av_hwframe_ctx_alloc ?cenv" "sw_format rgb_frames_ctx \<in> set supported_formats"
    "0 \<le> r_av_hwframe_ctx_init ?cenv" "r_av_buffer_ref ?cenv"
    by (simp_all add: ok_env_def rgb_frames_ctx_def supported_formats_def)
  have cfg: "0 \<le> cr_ret (config_props ?cenv fresh_priv rgb_frames_ctx empty_world)"
    by (simp add: config_props_ok [OF ok])
  have sw: "sw_format rgb_frames_ctx = AV_PIX_FMT_RGB24" by (simp add: rgb_frames_ctx_def)
  have s: "in_fmt ?s = AV_PIX_FMT_RGB24" "cv_layout ?s = TensorLayout []"
    by (simp_all add: config_props_ok [OF ok] configured_priv_def sw ck_done_def
        NVCV_SUCCESS_def fresh_priv_def)
  have env: "r_av_frame_alloc ok_env = Some 200" "0 \<le> r_av_hwframe_get_buffer ok_env"
    "fst (r_wrap_in ok_env) = 0"
    by (simp_all add: ok_env_def)
  have rgb: "flags (sample_desc_get (in_fmt ?s)) AND AV_PIX_FMT_FLAG_RGB \<noteq> 0"
    by (simp add: s AV_PIX_FMT_FLAG_RGB_def)
  have d: "cv_data sample_frame (sample_desc_get (in_fmt ?s)) (cv_layout ?s) =
     \<lparr>dtype = NVCV_DATA_TYPE_U8, rank = 4, bufferType = NVCV_TENSOR_BUFFER_STRIDED_CUDA,
      shape = [1, 2, 4, 3], strides = [32, 16, 3, 1], basePtr = 4096,
      layout = TensorLayout []\<rparr>"
    by (simp add: s cv_data_def sample_frame_def)
  have "Ev_nvcvTensorWrapDataConstruct
          (cv_data sample_frame (sample_desc_get (in_fmt ?s)) (cv_layout ?s))
          (fst (r_wrap_in ok_env)) \<in>
        set (events_since sample_world
               (snd (filter_frame sample_desc_get ok_env ?s rgb_frames_ctx sample_frame
                       sample_world)))"
    using rgb
    by (simp add: filter_frame_buffer_ok [OF env(1,2)] events_since_def operator_events_def
        ck_events_first)
  with cfg show ?thesis by (simp add: d env(3))
qed

text \<open>
  C7, amended. For every frame processed by a filter whose configuration succeeded with
  \<^verbatim>\<open>nvcvTensorLayoutMake("NHWC", ...)\<close> reporting success, every tensor descriptor
  \<^verbatim>\<open>filter_frame\<close> hands to \<^verbatim>\<open>nvcvTensorWrapDataConstruct\<close> has the layout NHWC and is a
  rank-4 strided view of bytes of the input frame or of the output frame as the pool
  delivered it: shape (1, height, width, step), strides (height * linesize, linesize, step,
  1), base pointer the frame's first data plane, so that the tensor aliases the frame's
  memory and nothing is copied. When the format has the RGB flag and the output frame and
  its buffer are allocated, both descriptors are built and handed over.
  (\<open>strided_view_of_values\<close> below reads the numbers as integers when the product
  height * linesize fits the C \<^verbatim>\<open>int\<close>.)
\<close>

theorem C7_tensor_descriptors_view_frame_memory:
  fixes dg cenv s0 c w0 env fc inp w
  defines "s \<equiv> cr_priv (config_props cenv s0 c w0)"
  defines "E \<equiv> events_since w (snd (filter_frame dg env (cr_priv (config_props cenv s0 c w0))
                                         fc inp w))"
  assumes "0 \<le> cr_ret (config_props cenv s0 c w0)"
    and "fst (r_nvcvTensorLayoutMake cenv) = NVCV_SUCCESS"
  shows "(\<forall>d st. Ev_nvcvTensorWrapDataConstruct d st \<in> set E \<longrightarrow>
            layout d = TensorLayout ''NHWC'' \<and>
            (strided_view_of d inp (comp0_step (dg (in_fmt s))) \<or>
             (\<exists>a. r_av_frame_alloc env = Some a \<and>
                  strided_view_of d (av_hwframe_get_buffer env (blank_frame a))
                    (comp0_step (dg (out_fmt s)))))) \<and>
         (\<forall>a. flags (dg (in_fmt s)) AND AV_PIX_FMT_FLAG_RGB \<noteq> 0 \<and>
              r_av_frame_alloc env = Some a \<and> 0 \<le> r_av_hwframe_get_buffer env \<longrightarrow>
              (\<exists>di dd.
                 Ev_nvcvTensorWrapDataConstruct di (fst (r_wrap_in env)) \<in> set E \<and>
                 Ev_nvcvTensorWrapDataConstruct dd (fst (r_wrap_out env)) \<in> set E \<and>
                 strided_view_of di inp (comp0_step (dg (in_fmt s))) \<and>
                 basePtr di = data0 inp \<and>
                 strided_view_of dd (av_hwframe_get_buffer env (blank_frame a))
                   (comp0_step (dg (out_fmt s))) \<and>
                 basePtr dd = r_pool_data0 env))"
proof -
  from assms(3) have ok: "r_av_hwframe_ctx_alloc cenv" "sw_format c \<in> set supported_formats"
    "0 \<le> r_av_hwframe_ctx_init cenv" "r_av_buffer_ref cenv"
    by (simp_all add: config_props_ret_nonneg)
  have lay: "cv_layout s = TensorLayout ''NHWC''"
    unfolding s_def using assms(4)
    by (simp add: config_props_ok [OF ok] configured_priv_def ck_done_def)
  have one: "layout d = TensorLayout ''NHWC'' \<and>
            (strided_view_of d inp (comp0_step (dg (in_fmt s))) \<or>
             (\<exists>a. r_av_frame_alloc env = Some a \<and>
                  strided_view_of d (av_hwframe_get_buffer env (blank_frame a))
                    (comp0_step (dg (out_fmt s)))))"
    if "Ev_nvcvTensorWrapDataConstruct d st \<in> set E" for d st
    using wrapped_by_filter_frame [OF that [unfolded E_def]] lay
    unfolding s_def by (auto simp: cv_data_view cv_data_layout)
  have two: "\<exists>di dd.
                 Ev_nvcvTensorWrapDataConstruct di (fst (r_wrap_in env)) \<in> set E \<and>
                 Ev_nvcvTensorWrapDataConstruct dd (fst (r_wrap_out env)) \<in> set E \<and>
                 strided_view_of di inp (comp0_step (dg (in_fmt s))) \<and>
                 basePtr di = data0 inp \<and>
                 strided_view_of dd (av_hwframe_get_buffer env (blank_frame a))
                   (comp0_step (dg (out_fmt s))) \<and>
                 basePtr dd = r_pool_data0 env"
    if h: "flags (dg (in_fmt s)) AND AV_PIX_FMT_FLAG_RGB \<noteq> 0" "r_av_frame_alloc env = Some a"
      "0 \<le> r_av_hwframe_get_buffer env" for a
  proof (intro exI conjI)
    show "Ev_nvcvTensorWrapDataConstruct (cv_data inp (dg (in_fmt s)) (cv_layout s))
            (fst (r_wrap_in env)) \<in> set E"
      unfolding E_def using h(1)
      by (simp add: filter_frame_buffer_ok [OF h(2,3)] events_since_def operator_events_def
          ck_events_first s_def)
    show "Ev_nvcvTensorWrapDataConstruct
            (cv_data (av_hwframe_get_buffer env (blank_frame a)) (dg (out_fmt s)) (cv_layout s))
            (fst (r_wrap_out env)) \<in> set E"
      unfolding E_def using h(1)
      by (simp add: filter_frame_buffer_ok [OF h(2,3)] events_since_def operator_events_def
          ck_events_first s_def)
    show "basePtr (cv_data inp (dg (in_fmt s)) (cv_layout s)) = data0 inp"
      by (simp add: cv_data_def)
    show "basePtr (cv_data (av_hwframe_get_buffer env (blank_frame a)) (dg (out_fmt s))
                     (cv_layout s)) = r_pool_data0 env"
      using h(3) by (simp add: cv_data_def av_hwframe_get_buffer_def)
  qed (rule cv_data_view)+
  from one two show ?thesis by blast
qed


theorem C7_witness:
  "0 \<le> cr_ret (config_props ok_env fresh_priv rgb_frames_ctx empty_world) \<and>
   fst (r_nvcvTensorLayoutMake ok_env) = NVCV_SUCCESS \<and>
   (\<exists>di dd.
      Ev_nvcvTensorWrapDataConstruct di 0 \<in>
        set (events_since sample_world
               (snd (filter_frame sample_desc_get ok_env
                       (cr_priv (config_props ok_env fresh_priv rgb_frames_ctx empty_world))
                       rgb_frames_ctx sample_frame sample_world))) \<and>
      Ev_nvcvTensorWrapDataConstruct dd 0 \<in>
        set (events_since sample_world
               (snd (filter_frame sample_desc_get ok_env
                       (cr_priv (config_props ok_env fresh_priv rgb_frames_ctx empty_world))
                       rgb_frames_ctx sample_frame sample_world))) \<and>
      shape di = [1, 2, 4, 3] \<and> strides di = [32, 16, 3, 1] \<and> basePtr di = 4096 \<and>
      layout di = TensorLayout ''NHWC'' \<and>
      shape dd = [1, 2, 4, 3] \<and> strides dd = [32, 16, 3, 1] \<and> basePtr dd = 8192 \<and>
      layout dd = TensorLayout ''NHWC'')"
proof -
  let ?s = "cr_priv (config_props ok_env fresh_priv rgb_frames_ctx empty_world)"
  let ?E = "events_since sample_world
              (snd (filter_frame sample_desc_get ok_env ?s rgb_frames_ctx sample_frame sample_world))"
  have ok: "r_av_hwframe_ctx_alloc ok_env" "sw_format rgb_frames_ctx \<in> set supported_formats"
    "0 \<le> r_av_hwframe_ctx_init ok_env" "r_av_buffer_ref ok_env"
    by (simp_all add: ok_env_def rgb_frames_ctx_def supported_formats_def)
  have cfg: "0 \<le> cr_ret (config_props ok_env fresh_priv rgb_frames_ctx empty_world)"
    by (simp add: config_props_ok [OF ok])
  have lay: "fst (r_nvcvTensorLayoutMake ok_env) = NVCV_SUCCESS"
    by (simp add: ok_env_def NVCV_SUCCESS_def)
  have sw: "sw_format rgb_frames_ctx = AV_PIX_FMT_RGB24"
    by (simp add: rgb_frames_ctx_def)
  have fmt: "in_fmt ?s = AV_PIX_FMT_RGB24" "out_fmt ?s = AV_PIX_FMT_RGB24"
    by (simp_all add: config_props_ok [OF ok] configured_priv_def sw)
  have env: "r_av_frame_alloc ok_env = Some 200" "0 \<le> r_av_hwframe_get_buffer ok_env"
    "fst (r_wrap_in ok_env) = 0" "fst (r_wrap_out ok_env) = 0"
    by (simp_all add: ok_env_def)
  have rgb: "flags (sample_desc_get (in_fmt ?s)) AND AV_PIX_FMT_FLAG_RGB \<noteq> 0"
    by (simp add: fmt AV_PIX_FMT_FLAG_RGB_def)
  note C7 = C7_tensor_descriptors_view_frame_memory [OF cfg lay, where dg = sample_desc_get
      and env = ok_env and fc = rgb_frames_ctx and inp = sample_frame and w = sample_world]
  from C7 rgb env obtain di dd where
    d: "Ev_nvcvTensorWrapDataConstruct di 0 \<in> set ?E"
       "Ev_nvcvTensorWrapDataConstruct dd 0 \<in> set ?E"
       "strided_view_of di sample_frame (comp0_step (sample_desc_get (in_fmt ?s)))"
       "strided_view_of dd (av_hwframe_get_buffer ok_env (blank_frame 200))
          (comp0_step (sample_desc_get (out_fmt ?s)))"
    by (metis (no_types, lifting))
  from C7 d(1,2) have l: "layout di = TensorLayout ''NHWC''" "layout dd = TensorLayout ''NHWC''"
    by blast+
  have vi: "shape di = [1, 2, 4, 3]" "strides di = [32, 16, 3, 1]" "basePtr di = 4096"
    using d(3) by (simp_all add: strided_view_of_def fmt sample_frame_def)
  have pool: "frame_height (av_hwframe_get_buffer ok_env (blank_frame 200)) = 2"
    "frame_width (av_hwframe_get_buffer ok_env (blank_frame 200)) = 4"
    "linesize0 (av_hwframe_get_buffer ok_env (blank_frame 200)) = 16"
    "data0 (av_hwframe_get_buffer ok_env (blank_frame 200)) = 8192"
    by (simp_all add: av_hwframe_get_buffer_def blank_frame_def ok_env_def)
  have vd: "shape dd = [1, 2, 4, 3]" "strides dd = [32, 16, 3, 1]" "basePtr dd = 8192"
    using d(4) by (simp_all add: strided_view_of_def fmt pool)
  from vi vd cfg lay d(1,2) l show ?thesis by blast
qed

lemma sint_scast_up: "sint (scast (x :: 32 word) :: 64 word) = sint x"
  by (simp add: sint_up_scast is_up)

lemma strided_view_of_values:
  assumes "strided_view_of d f step"
    and "- (2 ^ 31) \<le> sint (frame_height f) * sint (linesize0 f)"
    and "sint (frame_height f) * sint (linesize0 f) < 2 ^ 31"
  shows "map sint (shape d) = [1, sint (frame_height f), sint (frame_width f), sint step]"
    and "map sint (strides d) =
           [sint (frame_height f) * sint (linesize0 f), sint (linesize0 f), sint step, 1]"
proof -
  have "sint (frame_height f * linesize0 f) = sint (frame_height f) * sint (linesize0 f)"
    using assms(2,3) by (simp add: sint_word_ariths signed_take_bit_int_eq_self)
  with assms(1) show "map sint (shape d) = [1, sint (frame_height f), sint (frame_width f), sint step]"
    and "map sint (strides d) =
           [sint (frame_height f) * sint (linesize0 f), sint (linesize0 f), sint step, 1]"
    by (simp_all add: strided_view_of_def sint_scast_up)
qed

lemma filter_frame_trace:
  "\<exists>evs. trace (snd (filter_frame dg env s fc inp w)) = trace w @ evs \<and>
         create_calls evs = [] \<and> destroy_calls evs = []"
proof (cases "r_av_frame_alloc env")
  case None
  then show ?thesis by (simp add: filter_frame_alloc_fail)
next
  case (Some a)
  show ?thesis
  proof (cases "r_av_hwframe_get_buffer env < 0")
    case True
    with Some show ?thesis by (simp add: filter_frame_get_buffer_fail trace_homs)
  next
    case False
    then have "0 \<le> r_av_hwframe_get_buffer env" by simp
    from filter_frame_buffer_ok [OF Some this] show ?thesis by (simp add: trace_homs)
  qed
qed

lemma process_frames_trace:
  "\<exists>evs. trace (process_frames dg s fc frames w) = trace w @ evs \<and>
         create_calls evs = [] \<and> destroy_calls evs = []"
proof (induction frames arbitrary: w)
  case Nil
  then show ?case by simp
next
  case (Cons p frames)
  obtain env inp where p: "p = (env, inp)" by (cases p)
  obtain e1 where e1: "trace (snd (filter_frame dg env s fc inp w)) = trace w @ e1"
    "create_calls e1 = []" "destroy_calls e1 = []"
    using filter_frame_trace by blast
  obtain e2 where e2:
    "trace (process_frames dg s fc frames (snd (filter_frame dg env s fc inp w))) =
       trace (snd (filter_frame dg env s fc inp w)) @ e2"
    "create_calls e2 = []" "destroy_calls e2 = []"
    using Cons.IH by blast
  have "trace (process_frames dg s fc (p # frames) w) = trace w @ (e1 @ e2)"
    by (simp add: p e1(1) e2(1))
  moreover have "create_calls (e1 @ e2) = []" "destroy_calls (e1 @ e2) = []"
    by (simp_all add: trace_homs e1 e2)
  ultimately show ?case by blast
qed

lemma create_calls_ck_events:
  "create_calls (ck_events r Ev_cvcudaFlipCreate) =
     (if fst r \<noteq> NVCV_SUCCESS then [fst r, snd r] else [fst r])"
  "destroy_calls (ck_events r Ev_cvcudaFlipCreate) = []"
  "create_calls (ck_events r (Ev_nvcvTensorLayoutMake descr)) = []"
  "destroy_calls (ck_events r (Ev_nvcvTensorLayoutMake descr)) = []"
  by (simp_all add: ck_events_def)

lemma config_props_ok_calls:
  assumes "0 \<le> cr_ret (config_props env s c w)"
  shows "\<exists>evs. trace (cr_world (config_props env s c w)) = trace w @ evs \<and>
           create_calls evs =
             (if fst (r_cvcudaFlipCreate env) \<noteq> NVCV_SUCCESS
              then [fst (r_cvcudaFlipCreate env), snd (r_cvcudaFlipCreate env)]
              else [fst (r_cvcudaFlipCreate env)]) \<and>
           destroy_calls evs = []"
    and "flip_handle (cr_priv (config_props env s c w)) =
           (if ck_done (r_cvcudaFlipCreate env) then r_new_handle env else flip_handle s)"
proof -
  from assms have ok: "r_av_hwframe_ctx_alloc env" "sw_format c \<in> set supported_formats"
    "0 \<le> r_av_hwframe_ctx_init env" "r_av_buffer_ref env"
    by (simp_all add: config_props_ret_nonneg)
  show "\<exists>evs. trace (cr_world (config_props env s c w)) = trace w @ evs \<and>
           create_calls evs =
             (if fst (r_cvcudaFlipCreate env) \<noteq> NVCV_SUCCESS
              then [fst (r_cvcudaFlipCreate env), snd (r_cvcudaFlipCreate env)]
              else [fst (r_cvcudaFlipCreate env)]) \<and>
           destroy_calls evs = []"
    by (simp add: config_props_ok [OF ok] trace_homs create_calls_ck_events)
  show "flip_handle (cr_priv (config_props env s c w)) =
           (if ck_done (r_cvcudaFlipCreate env) then r_new_handle env else flip_handle s)"
    by (simp add: config_props_ok [OF ok] configured_priv_def)
qed

section \<open>The life of the operator handle\<close>

text \<open>
  A life in which \<^verbatim>\<open>cvcudaFlipCreate\<close> fails: \<^verbatim>\<open>CK_NVCV\<close> logs, \<^verbatim>\<open>config_props\<close> returns 0
  all the same, a frame is processed and the instance is torn down. The create call was
  made twice (its status is 2 both times) and no handle was ever created, yet \<^verbatim>\<open>uninit\<close>
  destroys the handle of the zero-initialised context.
\<close>

theorem C6_counterexample:
  "0 \<le> cr_ret (config_props (ok_env\<lparr>r_cvcudaFlipCreate := (2, 2)\<rparr>) fresh_priv rgb_frames_ctx
                  empty_world) \<and>
   create_calls
     (events_since empty_world
        (lifecycle sample_desc_get (ok_env\<lparr>r_cvcudaFlipCreate := (2, 2)\<rparr>)
           [(ok_env, sample_frame)] fresh_priv rgb_frames_ctx empty_world)) = [2, 2] \<and>
   destroy_calls
     (events_since empty_world
        (lifecycle sample_desc_get (ok_env\<lparr>r_cvcudaFlipCreate := (2, 2)\<rparr>)
           [(ok_env, sample_frame)] fresh_priv rgb_frames_ctx empty_world)) = [0] \<and>
   (2 :: NVCVStatus) \<noteq> NVCV_SUCCESS"
proof -
  let ?cenv = "ok_env\<lparr>r_cvcudaFlipCreate := (2, 2)\<rparr>"
  let ?cfg = "config_props ?cenv fresh_priv rgb_frames_ctx empty_world"
  have ok: "r_av_hwframe_ctx_alloc ?cenv" "sw_format rgb_frames_ctx \<in> set supported_formats"
    "0 \<le> r_av_hwframe_ctx_init ?cenv" "r_av_buffer_ref ?cenv"
    by (simp_all add: ok_env_def rgb_frames_ctx_def supported_formats_def)
  have ret: "cr_ret ?cfg = 0"
    by (simp add: config_props_ok [OF ok])
  have cr: "r_cvcudaFlipCreate ?cenv = (2, 2)" by simp
  obtain e0 where e0: "trace (cr_world ?cfg) = trace empty_world @ e0"
    "create_calls e0 = [2, 2]" "destroy_calls e0 = []"
    using config_props_ok_calls(1) [of ?cenv fresh_priv rgb_frames_ctx empty_world] ret
    by (auto simp: NVCV_SUCCESS_def)
  have h: "flip_handle (cr_priv ?cfg) = 0"
    using config_props_ok_calls(2) [of ?cenv fresh_priv rgb_frames_ctx empty_world] ret
    by (simp add: ck_done_def NVCV_SUCCESS_def fresh_priv_def)
  obtain e1 where e1:
    "trace (process_frames sample_desc_get (cr_priv ?cfg) rgb_frames_ctx [(ok_env, sample_frame)]
              (cr_world ?cfg)) = trace (cr_world ?cfg) @ e1"
    "create_calls e1 = []" "destroy_calls e1 = []"
    using process_frames_trace by blast
  have "trace (lifecycle sample_desc_get ?cenv [(ok_env, sample_frame)] fresh_priv rgb_frames_ctx
                 empty_world) = trace empty_world @ (e0 @ e1 @ [Ev_nvcvOperatorDestroy 0])"
    unfolding lifecycle_def Let_def uninit_def emit_def
    using ret e0(1) e1(1) h by simp
  then have "events_since empty_world
        (lifecycle sample_desc_get ?cenv [(ok_env, sample_frame)] fresh_priv rgb_frames_ctx
           empty_world) = e0 @ e1 @ [Ev_nvcvOperatorDestroy 0]"
    by (rule events_since_append)
  with ret e0 e1 show ?thesis by (simp add: trace_homs NVCV_SUCCESS_def)
qed

text \<open>
  C6, amended. Over the life of one filter instance (configure, then frames, then
  destroy) in which the configuration succeeds and \<^verbatim>\<open>cvcudaFlipCreate\<close> reports success,
  the operator handle is created exactly once, by \<^verbatim>\<open>config_props\<close>, and destroyed exactly
  once: the destroy call is the one call \<^verbatim>\<open>uninit\<close> adds after the last frame, and it
  receives the handle that was created. No call of \<^verbatim>\<open>filter_frame\<close>, for any context and
  any outcome of its external calls, creates or destroys an operator.
\<close>

theorem C6_operator_created_and_destroyed_once:
  fixes dg cenv frames s0 c w0
  defines "cfg \<equiv> config_props cenv s0 c w0"
    and "L \<equiv> lifecycle dg cenv frames s0 c w0"
  assumes "0 \<le> cr_ret (config_props cenv s0 c w0)"
    and "fst (r_cvcudaFlipCreate cenv) = NVCV_SUCCESS"
  shows "create_calls (events_since w0 L) = [NVCV_SUCCESS] \<and>
         destroy_calls (events_since w0 L) = [r_new_handle cenv] \<and>
         create_calls (events_since w0 (cr_world cfg)) = [NVCV_SUCCESS] \<and>
         destroy_calls (events_since w0 (cr_world cfg)) = [] \<and>
         flip_handle (cr_priv cfg) = r_new_handle cenv \<and>
         (\<forall>env s fc inp w.
            create_calls (events_since w (snd (filter_frame dg env s fc inp w))) = [] \<and>
            destroy_calls (events_since w (snd (filter_frame dg env s fc inp w))) = []) \<and>
         events_since (process_frames dg (cr_priv cfg) c frames (cr_world cfg)) L =
           [Ev_nvcvOperatorDestroy (r_new_handle cenv)]"
proof -
  obtain e0 where e0: "trace (cr_world cfg) = trace w0 @ e0"
    "create_calls e0 = [NVCV_SUCCESS]" "destroy_calls e0 = []"
    using config_props_ok_calls(1) [OF assms(3)] assms(4) unfolding cfg_def by auto
  have h: "flip_handle (cr_priv cfg) = r_new_handle cenv"
    using config_props_ok_calls(2) [OF assms(3)] assms(4) unfolding cfg_def
    by (simp add: ck_done_def)
  obtain e1 where e1:
    "trace (process_frames dg (cr_priv cfg) c frames (cr_world cfg)) = trace (cr_world cfg) @ e1"
    "create_calls e1 = []" "destroy_calls e1 = []"
    using process_frames_trace by blast
  have L: "L = emit (Ev_nvcvOperatorDestroy (r_new_handle cenv))
                 (process_frames dg (cr_priv cfg) c frames (cr_world cfg))"
    unfolding L_def lifecycle_def Let_def uninit_def using assms(3) h
    by (simp add: cfg_def)
  have tL: "trace L = trace w0 @ (e0 @ e1 @ [Ev_nvcvOperatorDestroy (r_new_handle cenv)])"
    by (simp add: L emit_def e0(1) e1(1))
  have sL: "events_since w0 L = e0 @ e1 @ [Ev_nvcvOperatorDestroy (r_new_handle cenv)]"
    using tL by (rule events_since_append)
  have s0: "events_since w0 (cr_world cfg) = e0"
    using e0(1) by (rule events_since_append)
  have last: "events_since (process_frames dg (cr_priv cfg) c frames (cr_world cfg)) L =
           [Ev_nvcvOperatorDestroy (r_new_handle cenv)]"
    by (simp add: L emit_def events_since_def)
  have frame: "create_calls (events_since w (snd (filter_frame dg env s fc inp w))) = [] \<and>
            destroy_calls (events_since w (snd (filter_frame dg env s fc inp w))) = []"
    for env s fc inp w
    using filter_frame_trace [of dg env s fc inp w] by (auto simp: events_since_def)
  from sL s0 e0 e1 h last frame show ?thesis by (simp add: trace_homs)
qed

theorem C6_witness:
  "0 \<le> cr_ret (config_props ok_env fresh_priv rgb_frames_ctx empty_world) \<and>
   fst (r_cvcudaFlipCreate ok_env) = NVCV_SUCCESS \<and>
   create_calls
     (events_since empty_world
        (lifecycle sample_desc_get ok_env [(ok_env, sample_frame), (ok_env, sample_frame)]
           fresh_priv rgb_frames_ctx empty_world)) = [0] \<and>
   destroy_calls
     (events_since empty_world
        (lifecycle sample_desc_get ok_env [(ok_env, sample_frame), (ok_env, sample_frame)]
           fresh_priv rgb_frames_ctx empty_world)) = [7]"
proof -
  have ok: "r_av_hwframe_ctx_alloc ok_env" "sw_format rgb_frames_ctx \<in> set supported_formats"
    "0 \<le> r_av_hwframe_ctx_init ok_env" "r_av_buffer_ref ok_env"
    by (simp_all add: ok_env_def rgb_frames_ctx_def supported_formats_def)
  have cfg: "0 \<le> cr_ret (config_props ok_env fresh_priv rgb_frames_ctx empty_world)"
    by (simp add: config_props_ok [OF ok])
  have cr: "fst (r_cvcudaFlipCreate ok_env) = NVCV_SUCCESS" "r_new_handle ok_env = 7"
    by (simp_all add: ok_env_def NVCV_SUCCESS_def)
  from C6_operator_created_and_destroyed_once [OF cfg cr(1), where dg = sample_desc_get
      and frames = "[(ok_env, sample_frame), (ok_env, sample_frame)]"] cfg cr
  show ?thesis by (simp add: NVCV_SUCCESS_def)
qed

section \<open>Flipping twice\<close>

text \<open>
  The operator on tensors: an image written through a tensor whose cells have distinct
  addresses is read back unchanged, and the descriptor \<^verbatim>\<open>filter_frame\<close> builds for a frame
  views the image the frame holds.
\<close>

lemma cvcudaFlip_twice:
  "code \<in> {- 1, 0, 1} \<Longrightarrow> cvcudaFlip code (cvcudaFlip code img) = img"
  by (auto simp: cvcudaFlip_def rev_map o_def)

lemma cvcudaFlip_shape:
  "image_has_shape h w n img \<Longrightarrow> image_has_shape h w n (cvcudaFlip code img)"
  by (auto simp: image_has_shape_def cvcudaFlip_def)

lemma tensor_read_shape:
  "image_has_shape (tensor_height d) (tensor_width d) (tensor_channels d) (tensor_read d m)"
  by (auto simp: image_has_shape_def tensor_read_def)

lemma find_inj_on:
  "x \<in> set xs \<Longrightarrow> inj_on f (set xs) \<Longrightarrow> find (\<lambda>y. f y = f x) xs = Some x"
proof (induction xs)
  case Nil
  then show ?case by simp
next
  case (Cons a xs)
  show ?case
  proof (cases "a = x")
    case True
    then show ?thesis by simp
  next
    case False
    with Cons.prems have x: "x \<in> set xs" by simp
    from Cons.prems(2) have inj: "inj_on f (set xs)" by (simp add: inj_on_def)
    from Cons.prems False x have "f a \<noteq> f x" by (auto simp: inj_on_def)
    with Cons.IH [OF x inj] show ?thesis by simp
  qed
qed

lemma in_tensor_cells:
  "(r, c, k) \<in> set (tensor_cells d) \<longleftrightarrow>
     r < tensor_height d \<and> c < tensor_width d \<and> k < tensor_channels d"
  by (force simp: tensor_cells_def)

lemma tensor_write_at_cell:
  assumes "inj_on (\<lambda>(r, c, k). tensor_addr d r c k) (set (tensor_cells d))"
    and "r < tensor_height d" "c < tensor_width d" "k < tensor_channels d"
  shows "tensor_write d img m (tensor_addr d r c k) = img ! r ! c ! k"
proof -
  from assms(2-4) have "(r, c, k) \<in> set (tensor_cells d)" by (simp add: in_tensor_cells)
  from find_inj_on [OF this assms(1)]
  have "find (\<lambda>y. (case y of (r, c, k) \<Rightarrow> tensor_addr d r c k) = tensor_addr d r c k)
          (tensor_cells d) = Some (r, c, k)"
    by simp
  moreover have "(\<lambda>y. (case y of (r, c, k) \<Rightarrow> tensor_addr d r c k) = tensor_addr d r c k) =
                 (\<lambda>(r', c', k'). tensor_addr d r' c' k' = tensor_addr d r c k)"
    by auto
  ultimately show ?thesis by (simp add: tensor_write_def)
qed

lemma tensor_read_write:
  assumes inj: "inj_on (\<lambda>(r, c, k). tensor_addr d r c k) (set (tensor_cells d))"
    and sh: "image_has_shape (tensor_height d) (tensor_width d) (tensor_channels d) img"
  shows "tensor_read d (tensor_write d img m) = img"
proof (rule nth_equalityI)
  from sh show len: "length (tensor_read d (tensor_write d img m)) = length img"
    by (simp add: tensor_read_def image_has_shape_def)
  fix r assume "r < length (tensor_read d (tensor_write d img m))"
  then have r: "r < tensor_height d" by (simp add: tensor_read_def)
  with sh have row: "img ! r \<in> set img" by (simp add: image_has_shape_def)
  with sh have lrow: "length (img ! r) = tensor_width d" by (simp add: image_has_shape_def)
  show "tensor_read d (tensor_write d img m) ! r = img ! r"
  proof (rule nth_equalityI)
    from r lrow show "length (tensor_read d (tensor_write d img m) ! r) = length (img ! r)"
      by (simp add: tensor_read_def)
    fix c assume "c < length (tensor_read d (tensor_write d img m) ! r)"
    with r have c: "c < tensor_width d" by (simp add: tensor_read_def)
    with lrow have "img ! r ! c \<in> set (img ! r)" by simp
    with sh row have lpx: "length (img ! r ! c) = tensor_channels d"
      by (simp add: image_has_shape_def)
    show "tensor_read d (tensor_write d img m) ! r ! c = img ! r ! c"
    proof (rule nth_equalityI)
      from r c lpx show "length (tensor_read d (tensor_write d img m) ! r ! c) = length (img ! r ! c)"
        by (simp add: tensor_read_def)
      fix k assume "k < length (tensor_read d (tensor_write d img m) ! r ! c)"
      with r c have k: "k < tensor_channels d" by (simp add: tensor_read_def)
      with r c show "tensor_read d (tensor_write d img m) ! r ! c ! k = img ! r ! c ! k"
        by (simp add: tensor_read_def tensor_write_at_cell [OF inj])
    qed
  qed
qed

lemma mixed_radix_eq:
  fixes n :: nat
  assumes "b < n" "b' < n" "a * n + b = a' * n + b'"
  shows "a = a' \<and> b = b'"
proof -
  from assms(1) have "(a * n + b) div n = a" by simp
  moreover from assms(2) have "(a' * n + b') div n = a'" by simp
  ultimately have "a = a'" using assms(3) by simp
  with assms(3) show ?thesis by simp
qed

lemma cv_data_dims:
  "tensor_height (cv_data f desc lay) = nat (sint (frame_height f))"
  "tensor_width (cv_data f desc lay) = nat (sint (frame_width f))"
  "tensor_channels (cv_data f desc lay) = nat (sint (comp0_step desc))"
  "tensor_addr (cv_data f desc lay) r c k =
     data0 f + r * nat (sint (linesize0 f)) + c * nat (sint (comp0_step desc)) + k"
  by (simp_all add: tensor_height_def tensor_width_def tensor_channels_def tensor_addr_def
      cv_data_def sint_scast_up)

lemma tensor_read_cv_data:
  "tensor_read (cv_data f desc lay) m = frame_image f (comp0_step desc) m"
  by (simp add: tensor_read_def frame_image_def cv_data_dims)

lemma cv_data_cells_inj:
  assumes "nat (sint (frame_width f)) * nat (sint (comp0_step desc)) \<le> nat (sint (linesize0 f))"
  shows "inj_on (\<lambda>(r, c, k). tensor_addr (cv_data f desc lay) r c k)
           (set (tensor_cells (cv_data f desc lay)))"
proof (rule inj_onI)
  fix p q :: "nat \<times> nat \<times> nat"
  obtain r c k where p: "p = (r, c, k)" by (cases p)
  obtain r' c' k' where q: "q = (r', c', k')" by (cases q)
  let ?ls = "nat (sint (linesize0 f))" and ?st = "nat (sint (comp0_step desc))"
  let ?w = "nat (sint (frame_width f))"
  assume "p \<in> set (tensor_cells (cv_data f desc lay))"
    and "q \<in> set (tensor_cells (cv_data f desc lay))"
    and "(case p of (r, c, k) \<Rightarrow> tensor_addr (cv_data f desc lay) r c k) =
         (case q of (r, c, k) \<Rightarrow> tensor_addr (cv_data f desc lay) r c k)"
  then have cells: "(r, c, k) \<in> set (tensor_cells (cv_data f desc lay))"
      "(r', c', k') \<in> set (tensor_cells (cv_data f desc lay))"
    and eq: "tensor_addr (cv_data f desc lay) r c k = tensor_addr (cv_data f desc lay) r' c' k'"
    by (simp_all add: p q)
  from cells have b: "c < ?w" "k < ?st" "c' < ?w" "k' < ?st"
    by (simp_all add: in_tensor_cells cv_data_dims)
  have fit: "x * ?st + y < ?ls" if "x < ?w" "y < ?st" for x y
  proof -
    from that have "x * ?st + y < (x + 1) * ?st" by simp
    also from that(1) have "(x + 1) * ?st \<le> ?w * ?st" by (intro mult_le_mono1) simp
    finally show ?thesis using assms by simp
  qed
  from eq have "r * ?ls + (c * ?st + k) = r' * ?ls + (c' * ?st + k')"
    by (simp add: cv_data_dims)
  from mixed_radix_eq [OF fit [OF b(1,2)] fit [OF b(3,4)] this]
  have r: "r = r'" and u: "c * ?st + k = c' * ?st + k'" by simp_all
  from mixed_radix_eq [OF b(2) b(4) u] r show "p = q" by (simp add: p q)
qed

lemma cv_data_operand_ok:
  "flip_operand_ok (cv_data f desc (TensorLayout ''NHWC''))"
  by (simp add: flip_operand_ok_def cv_data_def)

lemma filter_frame_flips:
  assumes rgb: "flags (dg (in_fmt s)) AND AV_PIX_FMT_FLAG_RGB \<noteq> 0"
    and lay: "cv_layout s = TensorLayout ''NHWC''"
    and step: "comp0_step (dg (out_fmt s)) = comp0_step (dg (in_fmt s))"
    and alloc: "r_av_frame_alloc env = Some a"
    and buf: "0 \<le> r_av_hwframe_get_buffer env"
    and cp: "0 \<le> r_av_frame_copy_props env"
    and ok: "fst (r_wrap_in env) = NVCV_SUCCESS" "fst (r_wrap_out env) = NVCV_SUCCESS"
      "fst (r_cvcudaFlipSubmit env) = NVCV_SUCCESS"
    and geo: "r_pool_height env = frame_height x" "r_pool_width env = frame_width x"
    and fit: "nat (sint (frame_width x)) * nat (sint (comp0_step (dg (in_fmt s)))) \<le>
              nat (sint (r_pool_linesize0 env))"
  shows "forwarded (events_since w (snd (filter_frame dg env s fc x w))) =
           [(av_hwframe_get_buffer env (blank_frame a))\<lparr>props := props x\<rparr>]"
    and "frame_image ((av_hwframe_get_buffer env (blank_frame a))\<lparr>props := props x\<rparr>)
           (comp0_step (dg (in_fmt s))) (gpu_mem (snd (filter_frame dg env s fc x w))) =
         cvcudaFlip (flip_code s) (frame_image x (comp0_step (dg (in_fmt s))) (gpu_mem w))"
proof -
  let ?out = "av_hwframe_get_buffer env (blank_frame a)"
  let ?di = "cv_data x (dg (in_fmt s)) (cv_layout s)"
  let ?dd = "cv_data ?out (dg (out_fmt s)) (cv_layout s)"
  let ?img = "cvcudaFlip (flip_code s) (tensor_read ?di (gpu_mem w))"
  have out: "frame_height ?out = frame_height x" "frame_width ?out = frame_width x"
    "linesize0 ?out = r_pool_linesize0 env"
    using buf geo by (simp_all add: av_hwframe_get_buffer_def)
  show "forwarded (events_since w (snd (filter_frame dg env s fc x w))) =
           [?out\<lparr>props := props x\<rparr>]"
    using cp by (simp add: filter_frame_buffer_ok [OF alloc buf] events_since_def trace_homs)
  have okd: "flip_operands_ok ?di ?dd"
    using cv_data_operand_ok
    by (simp add: flip_operands_ok_def lay) (simp add: cv_data_def out step)
  have mem: "gpu_mem (snd (filter_frame dg env s fc x w)) = tensor_write ?dd ?img (gpu_mem w)"
    using rgb ok okd
    by (simp add: filter_frame_buffer_ok [OF alloc buf] operator_mem_def flip_mem_def
        tensor_of_def ck_done_def)
  have inj: "inj_on (\<lambda>(r, c, k). tensor_addr ?dd r c k) (set (tensor_cells ?dd))"
    by (rule cv_data_cells_inj) (simp add: out step fit)
  have "image_has_shape (tensor_height ?di) (tensor_width ?di) (tensor_channels ?di) ?img"
    by (intro cvcudaFlip_shape tensor_read_shape)
  then have sh: "image_has_shape (tensor_height ?dd) (tensor_width ?dd) (tensor_channels ?dd) ?img"
    by (simp add: cv_data_dims out step)
  have "frame_image (?out\<lparr>props := props x\<rparr>) (comp0_step (dg (in_fmt s)))
          (gpu_mem (snd (filter_frame dg env s fc x w))) =
        tensor_read ?dd (tensor_write ?dd ?img (gpu_mem w))"
    by (simp add: mem tensor_read_cv_data step frame_image_def)
  also have "\<dots> = ?img" by (rule tensor_read_write [OF inj sh])
  also have "\<dots> = cvcudaFlip (flip_code s) (frame_image x (comp0_step (dg (in_fmt s))) (gpu_mem w))"
    by (simp add: tensor_read_cv_data)
  finally show "frame_image (?out\<lparr>props := props x\<rparr>)
           (comp0_step (dg (in_fmt s))) (gpu_mem (snd (filter_frame dg env s fc x w))) =
         cvcudaFlip (flip_code s) (frame_image x (comp0_step (dg (in_fmt s))) (gpu_mem w))" .
qed

lemma filter_frame_forwards:
  assumes "r_av_frame_alloc env = Some a" "0 \<le> r_av_hwframe_get_buffer env"
    "0 \<le> r_av_frame_copy_props env"
  shows "fst (filter_frame dg env s fc x w) = r_ff_filter_frame env"
    and "forwarded (events_since w (snd (filter_frame dg env s fc x w))) =
           [(av_hwframe_get_buffer env (blank_frame a))\<lparr>props := props x\<rparr>]"
  using assms(3)
  by (simp_all add: filter_frame_buffer_ok [OF assms(1,2)] events_since_def trace_homs)

lemma filter_frame_submit_failed:
  assumes "r_av_frame_alloc env = Some a" "0 \<le> r_av_hwframe_get_buffer env"
    "\<not> ck_done (r_cvcudaFlipSubmit env)"
  shows "gpu_mem (snd (filter_frame dg env s fc x w)) = gpu_mem w"
  using assms(3)
  by (simp add: filter_frame_buffer_ok [OF assms(1,2)] operator_mem_def flip_mem_def
      split: option.splits)

lemma sample_images:
  "frame_image sample_frame 3 (gpu_mem sample_world) = sample_image"
  "frame_image
     \<lparr>frame_ref = 300, data0 = 12288, linesize0 = 16, frame_width = 4, frame_height = 2,
      props = props sample_frame\<rparr> 3 (gpu_mem sample_world) =
   [[[0, 0, 0], [0, 0, 0], [0, 0, 0], [0, 0, 0]], [[0, 0, 0], [0, 0, 0], [0, 0, 0], [0, 0, 0]]]"
  by (simp_all add: frame_image_def sample_frame_def sample_world_def empty_world_def
      sample_image_def upt_rec [of _ "numeral n" for n] upt_rec [of _ "Suc n" for n])

text \<open>
  Two runs in a row in which \<^verbatim>\<open>cvcudaFlipSubmit\<close> fails: the failure is logged, both runs
  return 0 and forward their output frame, and no byte of the GPU memory has changed. The
  frame the second run forwards holds what its pool buffer held before, not the image of
  the first input.
\<close>

theorem C10_counterexample:
  "flip_code rgb_priv \<in> {- 1, 0, 1} \<and>
   fst (filter_frame sample_desc_get (ok_env\<lparr>r_cvcudaFlipSubmit := (3, 3)\<rparr>) rgb_priv
          rgb_frames_ctx sample_frame sample_world) = 0 \<and>
   forwarded (events_since sample_world
     (snd (filter_frame sample_desc_get (ok_env\<lparr>r_cvcudaFlipSubmit := (3, 3)\<rparr>) rgb_priv
             rgb_frames_ctx sample_frame sample_world))) =
     [\<lparr>frame_ref = 200, data0 = 8192, linesize0 = 16, frame_width = 4, frame_height = 2,
       props = props sample_frame\<rparr>] \<and>
   fst (filter_frame sample_desc_get
          (ok_env\<lparr>r_av_frame_alloc := Some 300, r_pool_data0 := 12288,
                   r_cvcudaFlipSubmit := (3, 3)\<rparr>)
          rgb_priv rgb_frames_ctx
          \<lparr>frame_ref = 200, data0 = 8192, linesize0 = 16, frame_width = 4, frame_height = 2,
           props = props sample_frame\<rparr>
          (snd (filter_frame sample_desc_get (ok_env\<lparr>r_cvcudaFlipSubmit := (3, 3)\<rparr>) rgb_priv
                  rgb_frames_ctx sample_frame sample_world))) = 0 \<and>
   forwarded (events_since
     (snd (filter_frame sample_desc_get (ok_env\<lparr>r_cvcudaFlipSubmit := (3, 3)\<rparr>) rgb_priv
             rgb_frames_ctx sample_frame sample_world))
     (snd (filter_frame sample_desc_get
             (ok_env\<lparr>r_av_frame_alloc := Some 300, r_pool_data0 := 12288,
                      r_cvcudaFlipSubmit := (3, 3)\<rparr>)
             rgb_priv rgb_frames_ctx
             \<lparr>frame_ref = 200, data0 = 8192, linesize0 = 16, frame_width = 4, frame_height = 2,
              props = props sample_frame\<rparr>
             (snd (filter_frame sample_desc_get (ok_env\<lparr>r_cvcudaFlipSubmit := (3, 3)\<rparr>)
                     rgb_priv rgb_frames_ctx sample_frame sample_world))))) =
     [\<lparr>frame_ref = 300, data0 = 12288, linesize0 = 16, frame_width = 4, frame_height = 2,
       props = props sample_frame\<rparr>] \<and>
   frame_image
     \<lparr>frame_ref = 300, data0 = 12288, linesize0 = 16, frame_width = 4, frame_height = 2,
      props = props sample_frame\<rparr> 3
     (gpu_mem
        (snd (filter_frame sample_desc_get
                (ok_env\<lparr>r_av_frame_alloc := Some 300, r_pool_data0 := 12288,
                         r_cvcudaFlipSubmit := (3, 3)\<rparr>)
                rgb_priv rgb_frames_ctx
                \<lparr>frame_ref = 200, data0 = 8192, linesize0 = 16, frame_width = 4,
                 frame_height = 2, props = props sample_frame\<rparr>
                (snd (filter_frame sample_desc_get (ok_env\<lparr>r_cvcudaFlipSubmit := (3, 3)\<rparr>)
                        rgb_priv rgb_frames_ctx sample_frame sample_world))))) \<noteq>
   frame_image sample_frame 3 (gpu_mem sample_world)"
proof -
  let ?e1 = "ok_env\<lparr>r_cvcudaFlipSubmit := (3, 3)\<rparr>"
  let ?e2 = "ok_env\<lparr>r_av_frame_alloc := Some 300, r_pool_data0 := 12288,
                    r_cvcudaFlipSubmit := (3, 3)\<rparr>"
  let ?y = "\<lparr>frame_ref = 200, data0 = 8192, linesize0 = 16, frame_width = 4,
             frame_height = 2, props = props sample_frame\<rparr>"
  let ?z = "\<lparr>frame_ref = 300, data0 = 12288, linesize0 = 16, frame_width = 4,
             frame_height = 2, props = props sample_frame\<rparr>"
  let ?W1 = "snd (filter_frame sample_desc_get ?e1 rgb_priv rgb_frames_ctx sample_frame
                    sample_world)"
  let ?W2 = "snd (filter_frame sample_desc_get ?e2 rgb_priv rgb_frames_ctx ?y ?W1)"
  have e1: "r_av_frame_alloc ?e1 = Some 200" "0 \<le> r_av_hwframe_get_buffer ?e1"
    "0 \<le> r_av_frame_copy_props ?e1"
    and e2: "r_av_frame_alloc ?e2 = Some 300" "0 \<le> r_av_hwframe_get_buffer ?e2"
    "0 \<le> r_av_frame_copy_props ?e2"
    and ff: "r_ff_filter_frame ?e1 = 0" "r_ff_filter_frame ?e2 = 0"
    and nd: "\<not> ck_done (r_cvcudaFlipSubmit ?e1)" "\<not> ck_done (r_cvcudaFlipSubmit ?e2)"
    by (simp_all add: ok_env_def ck_done_def NVCV_SUCCESS_def)
  have y: "(av_hwframe_get_buffer ?e1 (blank_frame 200))\<lparr>props := props sample_frame\<rparr> = ?y"
    and z: "(av_hwframe_get_buffer ?e2 (blank_frame 300))\<lparr>props := props ?y\<rparr> = ?z"
    by (simp_all add: av_hwframe_get_buffer_def blank_frame_def ok_env_def)
  have code: "flip_code rgb_priv \<in> {- 1, 0, 1}" by (simp add: rgb_priv_def)
  have r1: "fst (filter_frame sample_desc_get ?e1 rgb_priv rgb_frames_ctx sample_frame
                   sample_world) = 0"
    by (simp only: filter_frame_forwards(1) [OF e1] ff)
  have f1: "forwarded (events_since sample_world ?W1) = [?y]"
    by (simp only: filter_frame_forwards(2) [OF e1] y)
  have r2: "fst (filter_frame sample_desc_get ?e2 rgb_priv rgb_frames_ctx ?y ?W1) = 0"
    by (simp only: filter_frame_forwards(1) [OF e2] ff)
  have f2: "forwarded (events_since ?W1 ?W2) = [?z]"
    by (simp only: filter_frame_forwards(2) [OF e2] z)
  have "gpu_mem ?W2 = gpu_mem ?W1"
    by (rule filter_frame_submit_failed [OF e2(1,2) nd(2)])
  also have "\<dots> = gpu_mem sample_world"
    by (rule filter_frame_submit_failed [OF e1(1,2) nd(1)])
  finally have m: "gpu_mem ?W2 = gpu_mem sample_world" .
  have ne: "frame_image ?z 3 (gpu_mem ?W2) \<noteq> frame_image sample_frame 3 (gpu_mem sample_world)"
    by (simp only: m sample_images) (simp add: sample_image_def)
  from code r1 f1 r2 f2 ne show ?thesis by (intro conjI)
qed

text \<open>
  C10, amended. Let the flip code be -1, 0 or 1, and let two frames in a row be processed
  to the end by a filter whose format has the RGB flag, whose layout is NHWC and whose
  input and output formats have the same byte step (as a successful configuration leaves
  it), every operator call reporting success and the pool delivering buffers of the size
  of the frame whose lines hold a row of pixels: the frame \<open>x\<close>, and then the frame \<open>y\<close>
  the first run forwarded, giving the frame \<open>z\<close>. After the first run \<open>y\<close> holds the flipped
  image of \<open>x\<close>; after the second \<open>z\<close> holds the image \<open>x\<close> held at the start, and carries
  the metadata of \<open>x\<close>. The flip is the operator modelled from the spec; it reads and writes
  through the descriptors \<^verbatim>\<open>filter_frame\<close> builds.
\<close>

theorem C10_flip_twice_restores_frame:
  fixes dg s fc e1 e2 x w
  defines "W1 \<equiv> snd (filter_frame dg e1 s fc x w)"
    and "step \<equiv> comp0_step (dg (in_fmt s))"
  assumes "flip_code s \<in> {- 1, 0, 1}"
    and "flags (dg (in_fmt s)) AND AV_PIX_FMT_FLAG_RGB \<noteq> 0"
    and "cv_layout s = TensorLayout ''NHWC''"
    and "comp0_step (dg (out_fmt s)) = comp0_step (dg (in_fmt s))"
    and "r_av_frame_alloc e1 = Some a1" "0 \<le> r_av_hwframe_get_buffer e1"
      "0 \<le> r_av_frame_copy_props e1"
      "fst (r_wrap_in e1) = NVCV_SUCCESS" "fst (r_wrap_out e1) = NVCV_SUCCESS"
      "fst (r_cvcudaFlipSubmit e1) = NVCV_SUCCESS"
      "r_pool_height e1 = frame_height x" "r_pool_width e1 = frame_width x"
      "nat (sint (frame_width x)) * nat (sint (comp0_step (dg (in_fmt s)))) \<le>
         nat (sint (r_pool_linesize0 e1))"
    and "r_av_frame_alloc e2 = Some a2" "0 \<le> r_av_hwframe_get_buffer e2"
      "0 \<le> r_av_frame_copy_props e2"
      "fst (r_wrap_in e2) = NVCV_SUCCESS" "fst (r_wrap_out e2) = NVCV_SUCCESS"
      "fst (r_cvcudaFlipSubmit e2) = NVCV_SUCCESS"
      "r_pool_height e2 = frame_height x" "r_pool_width e2 = frame_width x"
      "nat (sint (frame_width x)) * nat (sint (comp0_step (dg (in_fmt s)))) \<le>
         nat (sint (r_pool_linesize0 e2))"
    and "forwarded (events_since w (snd (filter_frame dg e1 s fc x w))) = [y]"
    and "forwarded (events_since (snd (filter_frame dg e1 s fc x w))
                      (snd (filter_frame dg e2 s fc y (snd (filter_frame dg e1 s fc x w))))) = [z]"
  shows "frame_image y step (gpu_mem W1) = cvcudaFlip (flip_code s) (frame_image x step (gpu_mem w)) \<and>
         frame_image z step (gpu_mem (snd (filter_frame dg e2 s fc y W1))) =
           frame_image x step (gpu_mem w) \<and>
         props z = props x"
proof -
  note f1 = filter_frame_flips [where dg = dg and s = s and fc = fc and w = w,
      OF assms(4-6) assms(7-15)]
  from f1(1) assms(25) have y: "y = (av_hwframe_get_buffer e1 (blank_frame a1))\<lparr>props := props x\<rparr>"
    by simp
  have gy: "frame_height y = frame_height x" "frame_width y = frame_width x" "props y = props x"
    using assms(8,13,14) by (simp_all add: y av_hwframe_get_buffer_def)
  have geo2: "r_pool_height e2 = frame_height y" "r_pool_width e2 = frame_width y"
    "nat (sint (frame_width y)) * nat (sint (comp0_step (dg (in_fmt s)))) \<le>
       nat (sint (r_pool_linesize0 e2))"
    using assms(22-24) by (simp_all add: gy)
  note f2 = filter_frame_flips [where dg = dg and s = s and fc = fc and w = W1 and x = y,
      OF assms(4-6) assms(16-21) geo2]
  from f2(1) assms(26) have z: "z = (av_hwframe_get_buffer e2 (blank_frame a2))\<lparr>props := props y\<rparr>"
    unfolding W1_def by simp
  have m1: "frame_image y step (gpu_mem W1) =
              cvcudaFlip (flip_code s) (frame_image x step (gpu_mem w))"
    unfolding W1_def step_def y by (rule f1(2))
  have "frame_image z step (gpu_mem (snd (filter_frame dg e2 s fc y W1))) =
          cvcudaFlip (flip_code s) (frame_image y step (gpu_mem W1))"
    unfolding step_def z by (rule f2(2))
  also have "\<dots> = frame_image x step (gpu_mem w)"
    by (simp add: m1 cvcudaFlip_twice [OF assms(3)])
  finally have m2: "frame_image z step (gpu_mem (snd (filter_frame dg e2 s fc y W1))) =
          frame_image x step (gpu_mem w)" .
  have "props z = props x" by (simp add: z gy)
  with m1 m2 show ?thesis by simp
qed

theorem C10_witness:
  "flip_code rgb_priv \<in> {- 1, 0, 1} \<and>
   cv_layout rgb_priv = TensorLayout ''NHWC'' \<and>
   fst (r_cvcudaFlipSubmit ok_env) = NVCV_SUCCESS \<and>
   frame_image sample_frame 3 (gpu_mem sample_world) = sample_image \<and>
   frame_image
     \<lparr>frame_ref = 200, data0 = 8192, linesize0 = 16, frame_width = 4, frame_height = 2,
      props = props sample_frame\<rparr> 3
     (gpu_mem (snd (filter_frame sample_desc_get ok_env rgb_priv rgb_frames_ctx sample_frame
                      sample_world))) =
     [[[10, 11, 12], [7, 8, 9], [4, 5, 6], [1, 2, 3]],
      [[26, 27, 28], [23, 24, 25], [20, 21, 22], [17, 18, 19]]] \<and>
   frame_image
     \<lparr>frame_ref = 300, data0 = 12288, linesize0 = 16, frame_width = 4, frame_height = 2,
      props = props sample_frame\<rparr> 3
     (gpu_mem
        (snd (filter_frame sample_desc_get
                (ok_env\<lparr>r_av_frame_alloc := Some 300, r_pool_data0 := 12288\<rparr>)
                rgb_priv rgb_frames_ctx
                \<lparr>frame_ref = 200, data0 = 8192, linesize0 = 16, frame_width = 4,
                 frame_height = 2, props = props sample_frame\<rparr>
                (snd (filter_frame sample_desc_get ok_env rgb_priv rgb_frames_ctx sample_frame
                        sample_world))))) = sample_image"
proof -
  let ?e2 = "ok_env\<lparr>r_av_frame_alloc := Some 300, r_pool_data0 := 12288\<rparr>"
  let ?y = "\<lparr>frame_ref = 200, data0 = 8192, linesize0 = 16, frame_width = 4,
             frame_height = 2, props = props sample_frame\<rparr>"
  let ?z = "\<lparr>frame_ref = 300, data0 = 12288, linesize0 = 16, frame_width = 4,
             frame_height = 2, props = props sample_frame\<rparr>"
  let ?W1 = "snd (filter_frame sample_desc_get ok_env rgb_priv rgb_frames_ctx sample_frame
                    sample_world)"
  let ?W2 = "snd (filter_frame sample_desc_get ?e2 rgb_priv rgb_frames_ctx ?y ?W1)"
  have step: "comp0_step (sample_desc_get (in_fmt rgb_priv)) = 3"
    "comp0_step (sample_desc_get (out_fmt rgb_priv)) = 3"
    by (simp_all add: rgb_priv_def)
  have s: "flip_code rgb_priv \<in> {- 1, 0, 1}"
    "flags (sample_desc_get (in_fmt rgb_priv)) AND AV_PIX_FMT_FLAG_RGB \<noteq> 0"
    "cv_layout rgb_priv = TensorLayout ''NHWC''"
    "comp0_step (sample_desc_get (out_fmt rgb_priv)) = comp0_step (sample_desc_get (in_fmt rgb_priv))"
    by (simp_all add: rgb_priv_def AV_PIX_FMT_FLAG_RGB_def)
  have code: "flip_code rgb_priv = 1" by (simp add: rgb_priv_def)
  have e1: "r_av_frame_alloc ok_env = Some 200" "0 \<le> r_av_hwframe_get_buffer ok_env"
    "0 \<le> r_av_frame_copy_props ok_env" "fst (r_wrap_in ok_env) = NVCV_SUCCESS"
    "fst (r_wrap_out ok_env) = NVCV_SUCCESS" "fst (r_cvcudaFlipSubmit ok_env) = NVCV_SUCCESS"
    "r_pool_height ok_env = frame_height sample_frame"
    "r_pool_width ok_env = frame_width sample_frame"
    "nat (sint (frame_width sample_frame)) *
       nat (sint (comp0_step (sample_desc_get (in_fmt rgb_priv)))) \<le>
     nat (sint (r_pool_linesize0 ok_env))"
    by (simp_all add: ok_env_def NVCV_SUCCESS_def sample_frame_def step)
  have e2: "r_av_frame_alloc ?e2 = Some 300" "0 \<le> r_av_hwframe_get_buffer ?e2"
    "0 \<le> r_av_frame_copy_props ?e2" "fst (r_wrap_in ?e2) = NVCV_SUCCESS"
    "fst (r_wrap_out ?e2) = NVCV_SUCCESS" "fst (r_cvcudaFlipSubmit ?e2) = NVCV_SUCCESS"
    "r_pool_height ?e2 = frame_height sample_frame"
    "r_pool_width ?e2 = frame_width sample_frame"
    "nat (sint (frame_width sample_frame)) *
       nat (sint (comp0_step (sample_desc_get (in_fmt rgb_priv)))) \<le>
     nat (sint (r_pool_linesize0 ?e2))"
    by (simp_all add: ok_env_def NVCV_SUCCESS_def sample_frame_def step)
  have y: "(av_hwframe_get_buffer ok_env (blank_frame 200))\<lparr>props := props sample_frame\<rparr> = ?y"
    and z: "(av_hwframe_get_buffer ?e2 (blank_frame 300))\<lparr>props := props ?y\<rparr> = ?z"
    by (simp_all add: av_hwframe_get_buffer_def blank_frame_def ok_env_def)
  have f1: "forwarded (events_since sample_world ?W1) = [?y]"
    by (simp only: filter_frame_forwards(2) [OF e1(1-3)] y)
  have f2: "forwarded (events_since ?W1 ?W2) = [?z]"
    by (simp only: filter_frame_forwards(2) [OF e2(1-3)] z)
  note C10 = C10_flip_twice_restores_frame [where dg = sample_desc_get and s = rgb_priv
      and fc = rgb_frames_ctx and w = sample_world and x = sample_frame,
      OF s e1 e2 f1 f2]
  have flipped: "cvcudaFlip 1 sample_image =
     [[[10, 11, 12], [7, 8, 9], [4, 5, 6], [1, 2, 3]],
      [[26, 27, 28], [23, 24, 25], [20, 21, 22], [17, 18, 19]]]"
    by (simp add: cvcudaFlip_def sample_image_def)
  from C10 s(1,3) e1(6) flipped show ?thesis
    by (simp only: step code sample_images(1))
qed

end
